theory Spec2Isabelle
  imports Complex_Main
begin

section \<open>Data model\<close>

text \<open>
  The catalog module \<^verbatim>\<open>BosTau.py\<close> and the command line front end \<^verbatim>\<open>cli.py\<close> build and
  consume the objects below. Numbers that Python writes as decimal literals (rates, sizes,
  times, the length multiplier) are kept as the exact decimal they denote, in \<open>real\<close>;
  chromosome lengths are Python integers. The attribute \<^verbatim>\<open>id\<close> of a class is the field
  \<open>chromosome_id\<close>, \<open>population_name\<close>, \<open>model_id\<close>, \<open>genetic_map_id\<close>, \<open>species_id\<close> or
  \<open>engine_id\<close> of its record, and further attributes that several classes share carry
  the name of their class.
\<close>

datatype error =
    UnknownSpeciesError
  | UnknownModelError
  | UnknownGeneticMapError
  | TooManySamplePopulationsError
  | DuplicateIdError
  | ValueError
  | IndexError
  | CollaboratorError string

datatype CiteReason = ASSEMBLY | GEN_TIME | POP_SIZE | DEM_MODEL

record Citation =
  doi :: "string option"
  year :: string
  author :: string
  reasons :: "CiteReason set"

record Chromosome =
  chromosome_id :: string
  chromosome_length :: int
  mutation_rate :: real
  recombination_rate :: real

record Genome =
  chromosomes :: "Chromosome list"
  assembly_citations :: "Citation list"
  mutation_rate_citations :: "Citation list"
  recombination_rate_citations :: "Citation list"

record Population =
  population_name :: string
  population_description :: string
  allow_samples :: bool
  sampling_time :: real

text \<open>\<^verbatim>\<open>msprime.PopulationConfiguration(initial_size, growth_rate, metadata)\<close>; the metadata
  is the dictionary of the population it belongs to.\<close>

record PopulationConfiguration =
  initial_size :: real
  growth_rate :: real
  metadata :: "Population option"

text \<open>\<^verbatim>\<open>msprime.PopulationParametersChange(time, initial_size, growth_rate, population_id)\<close>;
  a keyword that is left out is \<open>None\<close>.\<close>

record PopulationParametersChange =
  event_time :: real
  event_initial_size :: "real option"
  event_growth_rate :: "real option"
  population_id :: int

record DemographicModel =
  model_id :: string
  description :: string
  long_description :: string
  populations :: "Population list"
  citations :: "Citation list"
  generation_time :: real
  population_configurations :: "PopulationConfiguration list"
  demographic_events :: "PopulationParametersChange list"
  migration_matrix :: "real list list option"
  qc_model :: "string option"

record GeneticMap =
  genetic_map_id :: string
  genetic_map_citations :: "Citation list"
  genetic_map_long_description :: string

record Species =
  species_id :: string
  name :: string
  common_name :: string
  genome :: Genome
  species_generation_time :: real
  generation_time_citations :: "Citation list"
  population_size :: real
  population_size_citations :: "Citation list"
  demographic_models :: "DemographicModel list"
  genetic_maps :: "GeneticMap list"

text \<open>\<^verbatim>\<open>msprime.Sample(population, time)\<close>.\<close>

record Sample =
  population :: nat
  time :: real

section \<open>Constructors and registries of the library\<close>

definition Population_init :: "string \<Rightarrow> string \<Rightarrow> Population" where
  \<comment> \<open>Modelled from the spec: the class \<^verbatim>\<open>stdpopsim.Population\<close> is not among the sources.
      A population built from an id and a description alone has the default sampling time 0
      and is a sampling population (the model built this way in \<^verbatim>\<open>BosTau.py\<close> is described
      as having exactly one sampling population).\<close>
  "Population_init pid pdesc =
     \<lparr>population_name = pid, population_description = pdesc,
      allow_samples = True, sampling_time = 0\<rparr>"

definition Genome_init :: "Chromosome list \<Rightarrow> Citation list \<Rightarrow> Genome" where
  \<comment> \<open>Modelled from the spec: the class \<^verbatim>\<open>stdpopsim.Genome\<close> is not among the sources.
      A genome holds its chromosomes and citations; the citation lists that the caller
      does not pass are empty.\<close>
  "Genome_init chroms cites =
     \<lparr>chromosomes = chroms, assembly_citations = cites,
      mutation_rate_citations = [], recombination_rate_citations = []\<rparr>"

definition register_species :: "Species \<Rightarrow> Species list \<Rightarrow> error + Species list" where
  \<comment> \<open>Modelled from the spec: \<^verbatim>\<open>register(species)\<close> fails with \<^verbatim>\<open>DuplicateIdError\<close> if the
      id is already present; the registry keeps registration order.\<close>
  "register_species sp registry =
     (if species_id sp \<in> set (map species_id registry) then Inl DuplicateIdError
      else Inr (registry @ [sp]))"

definition get_species :: "Species list \<Rightarrow> string \<Rightarrow> error + Species" where
  \<comment> \<open>Modelled from the spec: \<^verbatim>\<open>get(id)\<close> fails with \<^verbatim>\<open>UnknownSpeciesError\<close> if absent.\<close>
  "get_species registry sid =
     (case find (\<lambda>sp. species_id sp = sid) registry of
        None \<Rightarrow> Inl UnknownSpeciesError
      | Some sp \<Rightarrow> Inr sp)"

definition add_demographic_model :: "Species \<Rightarrow> DemographicModel \<Rightarrow> Species" where
  \<comment> \<open>Modelled from the spec: a species owns its demographic models, added after
      construction, append-only.\<close>
  "add_demographic_model sp m = sp\<lparr>demographic_models := demographic_models sp @ [m]\<rparr>"

definition get_demographic_model :: "Species \<Rightarrow> string \<Rightarrow> error + DemographicModel" where
  \<comment> \<open>Modelled from the spec: a lookup against the species' models that fails with
      \<^verbatim>\<open>UnknownModelError\<close>.\<close>
  "get_demographic_model sp mid =
     (case find (\<lambda>m. model_id m = mid) (demographic_models sp) of
        None \<Rightarrow> Inl UnknownModelError
      | Some m \<Rightarrow> Inr m)"

definition num_sampling_populations :: "DemographicModel \<Rightarrow> nat" where
  \<comment> \<open>Modelled from the spec: the count of populations with \<^verbatim>\<open>allow_samples = true\<close>.\<close>
  "num_sampling_populations m = length (filter allow_samples (populations m))"

fun samples_from :: "nat \<Rightarrow> nat list \<Rightarrow> Population list \<Rightarrow> Sample list" where
  "samples_from i [] ps = []"
| "samples_from i (n # ns) [] = []"
| "samples_from i (n # ns) (p # ps) =
     replicate n \<lparr>population = i, time = sampling_time p\<rparr> @ samples_from (Suc i) ns ps"

definition get_samples :: "DemographicModel \<Rightarrow> nat list \<Rightarrow> error + Sample list" where
  \<comment> \<open>Modelled from the spec: \<^verbatim>\<open>get_samples(*counts)\<close> is not among the sources. It maps a
      flat sequence of non-negative integers to sample objects; the i-th count goes to the
      i-th sampling population in model order (\<open>samples_from\<close> walks both sequences), each
      sample carrying that index and that population's sampling time. More counts than
      sampling populations is \<^verbatim>\<open>TooManySamplePopulationsError\<close>.\<close>
  "get_samples m counts =
     (if length counts > num_sampling_populations m then Inl TooManySamplePopulationsError
      else Inr (samples_from 0 counts (filter allow_samples (populations m))))"

subsection \<open>The invariant of a demographic model\<close>

text \<open>
  The invariant as the spec states it. The i-th initial configuration is that of
  population i, and an event names its population by \<open>population_id\<close>: every such index
  must be a position of the population sequence. Event times are non-negative, and events
  are supplied in non-decreasing time order.
\<close>

definition population_indices_valid :: "DemographicModel \<Rightarrow> bool" where
  "population_indices_valid m =
     (list_all (\<lambda>i. i < length (populations m)) [0 ..< length (population_configurations m)] \<and>
      list_all (\<lambda>e. 0 \<le> population_id e \<and> population_id e < int (length (populations m)))
        (demographic_events m))"

definition event_times_nonnegative :: "DemographicModel \<Rightarrow> bool" where
  "event_times_nonnegative m = list_all (\<lambda>e. 0 \<le> event_time e) (demographic_events m)"

definition events_in_time_order :: "DemographicModel \<Rightarrow> bool" where
  "events_in_time_order m = sorted (map event_time (demographic_events m))"

subsection \<open>Citations\<close>

fun merge_into :: "Citation \<Rightarrow> Citation list \<Rightarrow> Citation list" where
  "merge_into c [] = [c]"
| "merge_into c (x # xs) =
     (if doi c \<noteq> None \<and> doi x = doi c then x\<lparr>reasons := reasons x \<union> reasons c\<rparr> # xs
      else x # merge_into c xs)"

definition merge :: "Citation list \<Rightarrow> Citation list" where
  \<comment> \<open>Modelled from the spec: \<^verbatim>\<open>Citation.merge\<close> is not among the sources. It groups the
      citations by equality of doi, a citation without doi never joining another one,
      unions the reason sets of a group into its first-seen member, and keeps the groups in
      first-seen order.\<close>
  "merge cs = foldl (\<lambda>acc c. merge_into c acc) [] cs"

text \<open>Notions for stating what \<open>merge\<close> does: whether a citation has a doi, a list
  reduced to the first occurrence of each element (\<open>remdups\<close> keeps the last one, hence the
  reversals), and the union of the reason sets of the citations of one doi.\<close>

definition has_doi :: "Citation \<Rightarrow> bool" where
  "has_doi c = (doi c \<noteq> None)"

definition first_seen :: "'a list \<Rightarrow> 'a list" where
  "first_seen xs = rev (remdups (rev xs))"

definition group_reasons :: "string option \<Rightarrow> Citation list \<Rightarrow> CiteReason set" where
  "group_reasons d cs = \<Union> (set (map reasons (filter (\<lambda>c. doi c = d) cs)))"

subsection \<open>Contigs\<close>

text \<open>What the front end reads from a recombination map: \<^verbatim>\<open>get_length()\<close> and
  \<^verbatim>\<open>mean_recombination_rate\<close>.\<close>

record RecombinationMap =
  get_length :: real
  mean_recombination_rate :: real

record Contig =
  recombination_map :: RecombinationMap
  contig_mutation_rate :: real
  contig_genetic_map :: "GeneticMap option"

definition get_chromosome :: "Genome \<Rightarrow> string option \<Rightarrow> error + Chromosome" where
  \<comment> \<open>Modelled from the spec: the chromosome selector of contig resolution is an optional
      chromosome id, which defaults to the species' first chromosome if the genome has
      exactly one and is required otherwise.\<close>
  "get_chromosome g cid =
     (case cid of
        None \<Rightarrow> (case chromosomes g of [c] \<Rightarrow> Inr c | _ \<Rightarrow> Inl ValueError)
      | Some i \<Rightarrow>
          (case find (\<lambda>c. chromosome_id c = i) (chromosomes g) of
             None \<Rightarrow> Inl ValueError
           | Some c \<Rightarrow> Inr c))"

definition get_genetic_map :: "Species \<Rightarrow> string \<Rightarrow> error + GeneticMap" where
  \<comment> \<open>Modelled from the spec: fails with \<^verbatim>\<open>UnknownGeneticMapError\<close> if the id is not
      registered for the species.\<close>
  "get_genetic_map sp gid =
     (case find (\<lambda>g. genetic_map_id g = gid) (genetic_maps sp) of
        None \<Rightarrow> Inl UnknownGeneticMapError
      | Some g \<Rightarrow> Inr g)"

definition get_contig ::
  "(GeneticMap \<Rightarrow> Chromosome \<Rightarrow> error + real) \<Rightarrow> Species \<Rightarrow> string option \<Rightarrow>
   string option \<Rightarrow> real \<Rightarrow> error + Contig" where
  \<comment> \<open>Modelled from the spec: \<^verbatim>\<open>Species.get_contig\<close> is not among the sources. The length
      multiplier scales the contig length, which is the chromosome length times the
      multiplier, and not the per-base rates; the mutation rate is the chromosome's.
      Without a genetic map the recombination rate is the chromosome's uniform rate. With
      a genetic map the recombination profile comes from the map's data for the
      chromosome: \<open>map_data\<close> is the external cache, which gives the per-base rate of that
      profile or fails.\<close>
  "get_contig map_data sp cid gid length_multiplier =
     (case get_chromosome (genome sp) cid of
        Inl e \<Rightarrow> Inl e
      | Inr c \<Rightarrow>
          (case gid of
             None \<Rightarrow>
               Inr \<lparr>recombination_map =
                      \<lparr>get_length = real_of_int (chromosome_length c) * length_multiplier,
                       mean_recombination_rate = recombination_rate c\<rparr>,
                    contig_mutation_rate = mutation_rate c,
                    contig_genetic_map = None\<rparr>
           | Some i \<Rightarrow>
               (case get_genetic_map sp i of
                  Inl e \<Rightarrow> Inl e
                | Inr g \<Rightarrow>
                    (case map_data g c of
                       Inl e \<Rightarrow> Inl e
                     | Inr rate \<Rightarrow>
                         Inr \<lparr>recombination_map =
                                \<lparr>get_length =
                                   real_of_int (chromosome_length c) * length_multiplier,
                                 mean_recombination_rate = rate\<rparr>,
                              contig_mutation_rate = mutation_rate c,
                              contig_genetic_map = Some g\<rparr>))))"

subsection \<open>The piecewise-constant convenience model\<close>

text \<open>The attributes of \<^verbatim>\<open>stdpopsim.PiecewiseConstantSize\<close> that neither the sources nor the
  spec describe: its texts, the name of its population, and the citations and generation
  time it starts with.\<close>

record PiecewiseConstantSize_attributes =
  pcs_id :: string
  pcs_description :: string
  pcs_long_description :: string
  pcs_population_name :: string
  pcs_population_description :: string
  pcs_citations :: "Citation list"
  pcs_generation_time :: real

definition PiecewiseConstantSize ::
  "PiecewiseConstantSize_attributes \<Rightarrow> real \<Rightarrow> DemographicModel" where
  \<comment> \<open>Modelled from the spec: \<^verbatim>\<open>stdpopsim.PiecewiseConstantSize\<close> is not among the sources.
      With a size alone it is a single-population model with constant size and growth
      rate 0; it has never been registered with a QC implementation.\<close>
  "PiecewiseConstantSize attrs N0 =
     (let populations =
            [Population_init (pcs_population_name attrs) (pcs_population_description attrs)]
      in \<lparr>model_id = pcs_id attrs,
          description = pcs_description attrs,
          long_description = pcs_long_description attrs,
          populations = populations,
          citations = pcs_citations attrs,
          generation_time = pcs_generation_time attrs,
          population_configurations =
            [\<lparr>initial_size = N0, growth_rate = 0, metadata = Some (populations ! 0)\<rparr>],
          demographic_events = [],
          migration_matrix = None,
          qc_model = None\<rparr>)"

section \<open>The Bos Taurus catalog module\<close>

subsection \<open>Parsing the chromosome table\<close>

definition chromosome_data :: string where
  "chromosome_data =
     ''chr1    158534110\<newline>'' @
     ''chr2    136231102\<newline>'' @
     ''chr3    121005158\<newline>'' @
     ''chr4    120000601\<newline>'' @
     ''chr5    120089316\<newline>'' @
     ''chr6    117806340\<newline>'' @
     ''chr7    110682743\<newline>'' @
     ''chr8    113319770\<newline>'' @
     ''chr9    105454467\<newline>'' @
     ''chr10   103308737\<newline>'' @
     ''chr11   106982474\<newline>'' @
     ''chr12   87216183\<newline>'' @
     ''chr13   83472345\<newline>'' @
     ''chr14   82403003\<newline>'' @
     ''chr15   85007780\<newline>'' @
     ''chr16   81013979\<newline>'' @
     ''chr17   73167244\<newline>'' @
     ''chr18   65820629\<newline>'' @
     ''chr19   63449741\<newline>'' @
     ''chr20   71974595\<newline>'' @
     ''chr21   69862954\<newline>'' @
     ''chr22   60773035\<newline>'' @
     ''chr23   52498615\<newline>'' @
     ''chr24   62317253\<newline>'' @
     ''chr25   42350435\<newline>'' @
     ''chr26   51992305\<newline>'' @
     ''chr27   45612108\<newline>'' @
     ''chr28   45940150\<newline>'' @
     ''chr29   51098607\<newline>'' @
     ''chrX    139009144\<newline>''"

text \<open>\<^verbatim>\<open>str.splitlines()\<close>: the text is cut at every line feed, the only line boundary
  in the table, and a final line feed does not open an empty last line.\<close>

fun splitlines_acc :: "string \<Rightarrow> string \<Rightarrow> string list" where
  "splitlines_acc cur [] = (if cur = [] then [] else [rev cur])"
| "splitlines_acc cur (c # cs) =
     (if c = CHR ''\<newline>'' then rev cur # splitlines_acc [] cs
      else splitlines_acc (c # cur) cs)"

definition splitlines :: "string \<Rightarrow> string list" where
  "splitlines s = splitlines_acc [] s"

text \<open>\<^verbatim>\<open>str.split()\<close> with no argument: the fields between runs of white space, none of
  them empty.\<close>

definition is_space :: "char \<Rightarrow> bool" where
  "is_space c = (c = CHR '' '' \<or> c = CHR 0x09 \<or> c = CHR ''\<newline>'' \<or> c = CHR 0x0B
                 \<or> c = CHR 0x0C \<or> c = CHR 0x0D)"

fun split_acc :: "string \<Rightarrow> string \<Rightarrow> string list" where
  "split_acc cur [] = (if cur = [] then [] else [rev cur])"
| "split_acc cur (c # cs) =
     (if is_space c then (if cur = [] then split_acc [] cs else rev cur # split_acc [] cs)
      else split_acc (c # cur) cs)"

definition split :: "string \<Rightarrow> string list" where
  "split s = split_acc [] s"

text \<open>\<^verbatim>\<open>int(s)\<close> on the unsigned decimal strings of the table. A string with any other
  character, which the table does not contain, is reported as \<^verbatim>\<open>ValueError\<close>.\<close>

definition digit_value :: "char \<Rightarrow> int option" where
  "digit_value c =
     (let k = (of_char c :: nat)
      in if 48 \<le> k \<and> k \<le> 57 then Some (int k - 48) else None)"

fun int_of_digits :: "int \<Rightarrow> string \<Rightarrow> error + int" where
  "int_of_digits acc [] = Inr acc"
| "int_of_digits acc (c # cs) =
     (case digit_value c of
        None \<Rightarrow> Inl ValueError
      | Some d \<Rightarrow> int_of_digits (10 * acc + d) cs)"

definition int_of_string :: "string \<Rightarrow> error + int" where
  "int_of_string s = (if s = [] then Inl ValueError else int_of_digits 0 s)"

text \<open>The loop over the lines: \<^verbatim>\<open>name, length = line.split()[:2]\<close> raises \<^verbatim>\<open>ValueError\<close>
  when a line has fewer than two fields. The rates \<^verbatim>\<open>1e-8\<close> are written \<open>1 / 10 ^ 8\<close>.\<close>

fun parse_chromosomes :: "string list \<Rightarrow> error + Chromosome list" where
  "parse_chromosomes [] = Inr []"
| "parse_chromosomes (line # rest) =
     (case take 2 (split line) of
        [nm, len] \<Rightarrow>
          (case int_of_string len of
             Inl e \<Rightarrow> Inl e
           | Inr n \<Rightarrow>
               (case parse_chromosomes rest of
                  Inl e \<Rightarrow> Inl e
                | Inr cs \<Rightarrow>
                    Inr (\<lparr>chromosome_id = nm, chromosome_length = n,
                          mutation_rate = 1 / 10 ^ 8, recombination_rate = 1 / 10 ^ 8\<rparr> # cs)))
      | _ \<Rightarrow> Inl ValueError)"

subsection \<open>Genome, species and citations\<close>

definition assembly_citation :: Citation where
  "assembly_citation =
     \<lparr>doi = Some ''https://doi.org/10.1093/gigascience/giaa021'',
      year = ''2020'', author = ''Rosen et al.'', reasons = {ASSEMBLY}\<rparr>"

definition gen_time_citation :: Citation where
  "gen_time_citation =
     \<lparr>doi = Some ''https://doi.org/10.1093/molbev/mst125'',
      year = ''2013'', author = ''MacLeod et al.'', reasons = {GEN_TIME}\<rparr>"

definition pop_size_citation :: Citation where
  "pop_size_citation =
     \<lparr>doi = Some ''https://doi.org/10.1093/molbev/mst125'',
      year = ''2013'', author = ''MacLeod et al.'', reasons = {POP_SIZE}\<rparr>"

text \<open>The species object as \<^verbatim>\<open>stdpopsim.Species(...)\<close> builds it from the parsed chromosomes:
  a new species owns no demographic model and no genetic map yet.\<close>

definition species :: "Chromosome list \<Rightarrow> Species" where
  "species chroms =
     \<lparr>species_id = ''BosTau'',
      name = ''Bos Taurus'',
      common_name = ''Cattle'',
      genome = Genome_init chroms [assembly_citation],
      species_generation_time = 5,
      generation_time_citations = [gen_time_citation],
      population_size = 62000,
      population_size_citations = [pop_size_citation],
      demographic_models = [],
      genetic_maps = []\<rparr>"

subsection \<open>The demographic model\<close>

text \<open>\<^verbatim>\<open>_inferred_1_M_13()\<close>. The migration matrix is commented out in the source and no QC
  model is passed, so both are \<open>None\<close>.\<close>

definition inferred_1_M_13 :: DemographicModel where
  "inferred_1_M_13 =
     (let populations = [Population_init ''FILL ME'' ''FILL ME''];
          citations =
            [\<lparr>doi = Some ''https://doi.org/10.1093/molbev/mst125'',
              year = ''2013'', author = ''MacLeod et al.'', reasons = {DEM_MODEL}\<rparr>];
          generation_time = 5
      in \<lparr>model_id = ''IonaInferredDemography'',
          description = ''Iona MacLeod's Inferred Demographic Model for Bos Taurus'',
          long_description =
            ''\<newline>    The Runs of Homozygosity-based infer of Demography from MacLeod et al. 2013.\<newline>    '',
          populations = populations,
          citations = citations,
          generation_time = generation_time,
          population_configurations =
            [\<lparr>initial_size = 90, growth_rate = 0.0166, metadata = Some (populations ! 0)\<rparr>],
          demographic_events =
            [\<lparr>event_time = 1, event_initial_size = Some 90,
              event_growth_rate = Some (- 0.095894024), population_id = 0\<rparr>,
             \<lparr>event_time = 4, event_initial_size = None,
              event_growth_rate = Some (- 0.24465639), population_id = 0\<rparr>,
             \<lparr>event_time = 7, event_initial_size = None,
              event_growth_rate = Some (- 0.0560787), population_id = 0\<rparr>,
             \<lparr>event_time = 13, event_initial_size = None,
              event_growth_rate = Some (- 0.1749704), population_id = 0\<rparr>,
             \<lparr>event_time = 19, event_initial_size = None,
              event_growth_rate = Some (- 0.0675775), population_id = 0\<rparr>,
             \<lparr>event_time = 25, event_initial_size = None,
              event_growth_rate = Some (- 0.0022129), population_id = 0\<rparr>,
             \<lparr>event_time = 155, event_initial_size = None,
              event_growth_rate = Some (- 0.0007438), population_id = 0\<rparr>,
             \<lparr>event_time = 455, event_initial_size = None,
              event_growth_rate = Some (- 0.0016824), population_id = 0\<rparr>,
             \<lparr>event_time = 655, event_initial_size = None,
              event_growth_rate = Some (- 0.0006301), population_id = 0\<rparr>,
             \<lparr>event_time = 1755, event_initial_size = None,
              event_growth_rate = Some (- 0.0005945), population_id = 0\<rparr>,
             \<lparr>event_time = 2355, event_initial_size = None,
              event_growth_rate = Some (- 0.0005306), population_id = 0\<rparr>,
             \<lparr>event_time = 3355, event_initial_size = None,
              event_growth_rate = Some (- 0.0000434), population_id = 0\<rparr>,
             \<lparr>event_time = 33155, event_initial_size = None,
              event_growth_rate = Some (- 0.0000), population_id = 0\<rparr>,
             \<lparr>event_time = 933155, event_initial_size = None,
              event_growth_rate = Some (- 0.0), population_id = 0\<rparr>],
          migration_matrix = None,
          qc_model = None\<rparr>)"

subsection \<open>Loading the module\<close>

text \<open>
  Importing \<^verbatim>\<open>BosTau.py\<close> runs its statements in order against the process-wide registry:
  parse the table, build the species, register it, and add the demographic model to the
  registered object. Any exception on the way aborts the import.
\<close>

definition BosTau_module :: "Species list \<Rightarrow> error + Species list" where
  "BosTau_module registry =
     (case parse_chromosomes (splitlines chromosome_data) of
        Inl e \<Rightarrow> Inl e
      | Inr chroms \<Rightarrow>
          (case register_species (species chroms) registry of
             Inl e \<Rightarrow> Inl e
           | Inr registry' \<Rightarrow>
               Inr (map (\<lambda>sp. if species_id sp = ''BosTau''
                               then add_demographic_model sp inferred_1_M_13 else sp)
                        registry')))"

text \<open>The species object that the registry holds once the module has been imported.\<close>

definition BosTau :: Species where
  "BosTau =
     add_demographic_model
       (species (projr (parse_chromosomes (splitlines chromosome_data)))) inferred_1_M_13"

section \<open>The command line front end\<close>

subsection \<open>Arguments, engines and effects\<close>

text \<open>The namespace that \<^verbatim>\<open>argparse\<close> hands to \<^verbatim>\<open>run_simulation\<close>. The sample counts are
  the non-negative integers that \<^verbatim>\<open>get_samples\<close> is specified for.\<close>

record Args =
  args_demographic_model :: "string option"
  args_samples :: "nat list"
  args_chromosome :: "string option"
  args_genetic_map :: "string option"
  args_length_multiplier :: real
  args_engine :: string
  args_seed :: "int option"
  args_dry_run :: bool
  args_output :: "string option"
  args_bibtex_file :: "string option"

text \<open>\<^verbatim>\<open>kwargs = vars(args); kwargs.update(demographic_model=model, contig=contig,
  samples=samples)\<close>: what \<^verbatim>\<open>engine.simulate\<close> receives.\<close>

record sim_request =
  request_args :: Args
  request_model :: DemographicModel
  request_contig :: Contig
  request_samples :: "Sample list"

text \<open>An engine is an external collaborator: \<^verbatim>\<open>simulate\<close> returns a tree sequence, or
  \<open>None\<close> for a dry run, or raises.\<close>

record 'ts Engine =
  engine_id :: string
  engine_citations :: "Citation list"
  get_version :: string
  simulate :: "sim_request \<Rightarrow> error + 'ts option"

text \<open>The parts of the package that the front end calls and the sources do not contain.\<close>

record 'ts Package =
  get_engine :: "string \<Rightarrow> error + 'ts Engine"
  stdpopsim_citation :: Citation
  genetic_map_data :: "GeneticMap \<Rightarrow> Chromosome \<Rightarrow> error + real"
  pcs_attributes :: PiecewiseConstantSize_attributes

text \<open>The text that \<^verbatim>\<open>write_simulation_summary\<close> logs, field by field; a row is
  (population id, number of samples, sampling time).\<close>

record Summary =
  summary_engine :: string
  summary_engine_version :: string
  summary_model_id :: string
  summary_model_description :: string
  summary_seed :: "int option"
  summary_rows :: "(string \<times> nat \<times> real) list"
  summary_contig_length :: real
  summary_mean_recombination_rate :: real
  summary_mutation_rate :: real
  summary_genetic_map :: string

datatype exit_message =
    CannotSampleFromMoreThan nat
  | ErrorText error

datatype outcome = Returned | Exit exit_message | Raised error

datatype 'ts effect =
    RunningInfo string string nat string
  | SummaryWarning Summary
  | QCWarning string
  | EngineSimulate sim_request "error + 'ts option"
  | SummariseUsage
  | WriteOutput 'ts "string option"
  | CitationRequest "Citation list"
  | WriteBibtex string "Citation list"

subsection \<open>Citations of a run\<close>

definition get_citations ::
  "Citation \<Rightarrow> 'ts Engine \<Rightarrow> DemographicModel \<Rightarrow> Contig \<Rightarrow> Species \<Rightarrow> Citation list" where
  "get_citations package_citation engine model contig sp =
     merge ([package_citation]
            @ engine_citations engine
            @ assembly_citations (genome sp)
            @ mutation_rate_citations (genome sp)
            @ recombination_rate_citations (genome sp)
            @ (case contig_genetic_map contig of
                 None \<Rightarrow> []
               | Some g \<Rightarrow> genetic_map_citations g)
            @ citations model)"

subsection \<open>The summary of a run\<close>

text \<open>\<^verbatim>\<open>for s in samples: sample_counts[s.population] += 1\<close>; an index outside the list
  raises \<^verbatim>\<open>IndexError\<close>.\<close>

fun tally :: "nat list \<Rightarrow> Sample list \<Rightarrow> error + nat list" where
  "tally sample_counts [] = Inr sample_counts"
| "tally sample_counts (s # ss) =
     (if population s < length sample_counts
      then tally (sample_counts[population s := sample_counts ! population s + 1]) ss
      else Inl IndexError)"

text \<open>\<^verbatim>\<open>for p in range(0, model.num_sampling_populations)\<close>: one row per index, reading
  \<^verbatim>\<open>model.populations[p]\<close> and \<^verbatim>\<open>sample_counts[p]\<close>.\<close>

fun summary_rows_of ::
  "Population list \<Rightarrow> nat list \<Rightarrow> nat list \<Rightarrow> error + (string \<times> nat \<times> real) list" where
  "summary_rows_of pops sample_counts [] = Inr []"
| "summary_rows_of pops sample_counts (p # ps) =
     (if p < length pops \<and> p < length sample_counts
      then (case summary_rows_of pops sample_counts ps of
              Inl e \<Rightarrow> Inl e
            | Inr rows \<Rightarrow>
                Inr ((population_name (pops ! p), sample_counts ! p, sampling_time (pops ! p))
                     # rows))
      else Inl IndexError)"

definition write_simulation_summary ::
  "'ts Engine \<Rightarrow> DemographicModel \<Rightarrow> Contig \<Rightarrow> Sample list \<Rightarrow> int option \<Rightarrow> error + Summary" where
  "write_simulation_summary engine model contig samples seed =
     (case tally (replicate (num_sampling_populations model) 0) samples of
        Inl e \<Rightarrow> Inl e
      | Inr sample_counts \<Rightarrow>
          (case summary_rows_of (populations model) sample_counts
                  [0 ..< num_sampling_populations model] of
             Inl e \<Rightarrow> Inl e
           | Inr rows \<Rightarrow>
               Inr \<lparr>summary_engine = engine_id engine,
                    summary_engine_version = get_version engine,
                    summary_model_id = model_id model,
                    summary_model_description = description model,
                    summary_seed = seed,
                    summary_rows = rows,
                    summary_contig_length = get_length (recombination_map contig),
                    summary_mean_recombination_rate =
                      mean_recombination_rate (recombination_map contig),
                    summary_mutation_rate = contig_mutation_rate contig,
                    summary_genetic_map =
                      (case contig_genetic_map contig of
                         None \<Rightarrow> ''None''
                       | Some g \<Rightarrow> genetic_map_id g)\<rparr>))"

subsection \<open>The chromosome option of a species parser\<close>

text \<open>
  \<^verbatim>\<open>add_simulate_species_parser\<close> first sets the parser default \<^verbatim>\<open>chromosome=None\<close>. Only if
  the genome has more than one chromosome does it add the option \<^verbatim>\<open>-c\<close>, whose choices are
  the chromosome ids and whose default is the first of them. \<open>given\<close> is what the user wrote
  after \<^verbatim>\<open>-c\<close>, if anything; an id outside the choices, or the option where it does not
  exist, is a usage error of \<^verbatim>\<open>argparse\<close>.
\<close>

datatype usage_error = UsageError

definition parse_chromosome :: "Species \<Rightarrow> string option \<Rightarrow> usage_error + string option" where
  "parse_chromosome sp given =
     (if length (chromosomes (genome sp)) > 1
      then (let choices = map chromosome_id (chromosomes (genome sp))
            in case given of
                 None \<Rightarrow> Inr (Some (choices ! 0))
               | Some c \<Rightarrow> if c \<in> set choices then Inr (Some c) else Inl UsageError)
      else (case given of
              None \<Rightarrow> Inr None
            | Some c \<Rightarrow> Inl UsageError))"

subsection \<open>Running a simulation\<close>

text \<open>The first branch of \<^verbatim>\<open>run_simulation\<close>: the model and whether it counts as
  quality-controlled. \<^verbatim>\<open>get_model_wrapper\<close> turns a failed lookup into an exit.\<close>

definition select_model ::
  "'ts Package \<Rightarrow> Species \<Rightarrow> Args \<Rightarrow> exit_message + DemographicModel \<times> bool" where
  "select_model pkg sp args =
     (case args_demographic_model args of
        None \<Rightarrow>
          (let model = PiecewiseConstantSize (pcs_attributes pkg) (population_size sp);
               model = model\<lparr>generation_time := species_generation_time sp\<rparr>;
               model = model\<lparr>citations := citations model @ population_size_citations sp\<rparr>;
               model = model\<lparr>citations := citations model @ generation_time_citations sp\<rparr>
           in Inr (model, True))
      | Some mid \<Rightarrow>
          (case get_demographic_model sp mid of
             Inl e \<Rightarrow> Inl (ErrorText e)
           | Inr model \<Rightarrow> Inr (model, qc_model model \<noteq> None)))"

text \<open>
  \<^verbatim>\<open>run_simulation(args)\<close> for the species of the parser: the effects in the order they
  happen, and how the call ends. An exception of a collaborator ends the run where it is
  raised.
\<close>

definition run_simulation :: "'ts Package \<Rightarrow> Species \<Rightarrow> Args \<Rightarrow> 'ts effect list \<times> outcome" where
  "run_simulation pkg sp args =
     (case select_model pkg sp args of
        Inl msg \<Rightarrow> ([], Exit msg)
      | Inr (model, qc_complete) \<Rightarrow>
     if length (args_samples args) > num_sampling_populations model
     then ([], Exit (CannotSampleFromMoreThan (num_sampling_populations model)))
     else
     (case get_samples model (args_samples args) of
        Inl e \<Rightarrow> ([], Raised e)
      | Inr samples \<Rightarrow>
     (case get_contig (genetic_map_data pkg) sp (args_chromosome args) (args_genetic_map args)
             (args_length_multiplier args) of
        Inl e \<Rightarrow> ([], Raised e)
      | Inr contig \<Rightarrow>
     (case get_engine pkg (args_engine args) of
        Inl e \<Rightarrow> ([], Raised e)
      | Inr engine \<Rightarrow>
     (let info = RunningInfo (model_id model) (species_id sp) (length samples)
                   (engine_id engine);
          request = \<lparr>request_args = args, request_model = model,
                     request_contig = contig, request_samples = samples\<rparr>
      in
     (case write_simulation_summary engine model contig samples (args_seed args) of
        Inl e \<Rightarrow> ([info], Raised e)
      | Inr summary \<Rightarrow>
     (let before = [info, SummaryWarning summary]
                   @ (if \<not> qc_complete then [QCWarning (model_id model)] else [])
      in
     (case simulate engine request of
        Inl e \<Rightarrow> (before @ [EngineSimulate request (Inl e)], Raised e)
      | Inr ts \<Rightarrow>
          (before
           @ [EngineSimulate request (Inr ts), SummariseUsage]
           @ (case ts of None \<Rightarrow> [] | Some t \<Rightarrow> [WriteOutput t (args_output args)])
           @ (if qc_complete
              then [CitationRequest
                      (get_citations (stdpopsim_citation pkg) engine model contig sp)]
              else [])
           @ (case args_bibtex_file args of
                None \<Rightarrow> []
              | Some f \<Rightarrow>
                  [WriteBibtex f
                     (get_citations (stdpopsim_citation pkg) engine model contig sp)]),
           Returned)))))))))"

section \<open>Concrete inputs\<close>

text \<open>
  A model with three populations of which the first, an ancestral one, is not a sampling
  population; an engine that returns nothing on a dry run and otherwise a tree sequence
  that is stood for by its number of samples; a package around it with no cached genetic
  map; and the arguments of \<^verbatim>\<open>stdpopsim BosTau -d IonaInferredDemography 10\<close>.
\<close>

definition three_population_model :: DemographicModel where
  "three_population_model =
     (let populations =
            [(Population_init ''ANC'' ''Ancestral population'')\<lparr>allow_samples := False\<rparr>,
             Population_init ''A'' ''First sampled population'',
             Population_init ''B'' ''Second sampled population'']
      in \<lparr>model_id = ''ThreePopulations'',
          description = ''Two sampled populations and their ancestor'',
          long_description = ''Two sampled populations and their ancestor'',
          populations = populations,
          citations = [],
          generation_time = 1,
          population_configurations =
            map (\<lambda>p. \<lparr>initial_size = 1000, growth_rate = 0, metadata = Some p\<rparr>) populations,
          demographic_events = [],
          migration_matrix = None,
          qc_model = None\<rparr>)"

definition example_engine :: "nat Engine" where
  "example_engine =
     \<lparr>engine_id = ''msprime'',
      engine_citations = [],
      get_version = ''0.7.4'',
      simulate = (\<lambda>request. if args_dry_run (request_args request) then Inr None
                            else Inr (Some (length (request_samples request))))\<rparr>"

definition example_package :: "nat Package" where
  "example_package =
     \<lparr>get_engine = (\<lambda>e. if e = ''msprime'' then Inr example_engine else Inl ValueError),
      stdpopsim_citation =
        \<lparr>doi = Some ''https://doi.org/10.1101/2019.12.20.885129'',
         year = ''2019'', author = ''Adrion et al.'', reasons = {}\<rparr>,
      genetic_map_data = (\<lambda>g c. Inl (CollaboratorError ''not in the cache'')),
      pcs_attributes =
        \<lparr>pcs_id = ''PiecewiseConstant'',
         pcs_description = ''Piecewise constant size population model'',
         pcs_long_description = ''Piecewise constant size population model'',
         pcs_population_name = ''pop_0'',
         pcs_population_description = ''Single population'',
         pcs_citations = [],
         pcs_generation_time = 1\<rparr>\<rparr>"

definition example_args :: Args where
  "example_args =
     \<lparr>args_demographic_model = Some ''IonaInferredDemography'',
      args_samples = [10],
      args_chromosome = Some ''chr1'',
      args_genetic_map = None,
      args_length_multiplier = 1,
      args_engine = ''msprime'',
      args_seed = None,
      args_dry_run = False,
      args_output = None,
      args_bibtex_file = None\<rparr>"

text \<open>The contig of chromosome 1 of Bos Taurus at its own length, with no genetic map.\<close>

definition chr1_contig :: Contig where
  "chr1_contig =
     \<lparr>recombination_map = \<lparr>get_length = 158534110, mean_recombination_rate = 1 / 10 ^ 8\<rparr>,
      contig_mutation_rate = 1 / 10 ^ 8,
      contig_genetic_map = None\<rparr>"

text \<open>A citation list with a repeated doi and two citations without one.\<close>

definition anonymous_citation :: Citation where
  "anonymous_citation =
     \<lparr>doi = None, year = ''2020'', author = ''Anonymous'', reasons = {ASSEMBLY}\<rparr>"

definition example_citations :: "Citation list" where
  "example_citations =
     [assembly_citation, gen_time_citation, anonymous_citation, pop_size_citation,
      anonymous_citation]"

text \<open>Bos Taurus with a genetic map registered, and a cache that holds its data.\<close>

definition example_genetic_map :: GeneticMap where
  "example_genetic_map =
     \<lparr>genetic_map_id = ''ExampleMap'', genetic_map_citations = [],
      genetic_map_long_description = ''A genetic map for the examples''\<rparr>"

definition BosTau_with_map :: Species where
  "BosTau_with_map = BosTau\<lparr>genetic_maps := [example_genetic_map]\<rparr>"

definition example_map_data :: "GeneticMap \<Rightarrow> Chromosome \<Rightarrow> error + real" where
  "example_map_data g c = Inr (2 / 10 ^ 8)"

section \<open>Verified properties\<close>

subsection \<open>The catalog module\<close>

lemma chromosomes_parsed:
  "parse_chromosomes (splitlines chromosome_data) =
     Inr (map (\<lambda>(nm, len). \<lparr>chromosome_id = nm, chromosome_length = len,
                               mutation_rate = 1 / 10 ^ 8, recombination_rate = 1 / 10 ^ 8\<rparr>)
       [(''chr1'', 158534110),
        (''chr2'', 136231102),
        (''chr3'', 121005158),
        (''chr4'', 120000601),
        (''chr5'', 120089316),
        (''chr6'', 117806340),
        (''chr7'', 110682743),
        (''chr8'', 113319770),
        (''chr9'', 105454467),
        (''chr10'', 103308737),
        (''chr11'', 106982474),
        (''chr12'', 87216183),
        (''chr13'', 83472345),
        (''chr14'', 82403003),
        (''chr15'', 85007780),
        (''chr16'', 81013979),
        (''chr17'', 73167244),
        (''chr18'', 65820629),
        (''chr19'', 63449741),
        (''chr20'', 71974595),
        (''chr21'', 69862954),
        (''chr22'', 60773035),
        (''chr23'', 52498615),
        (''chr24'', 62317253),
        (''chr25'', 42350435),
        (''chr26'', 51992305),
        (''chr27'', 45612108),
        (''chr28'', 45940150),
        (''chr29'', 51098607),
        (''chrX'', 139009144)])"
  by code_simp

lemma BosTau_module_empty: "BosTau_module [] = Inr [BosTau]"
  by (simp add: BosTau_module_def BosTau_def chromosomes_parsed register_species_def species_def)

lemma BosTau_chromosomes: "length (chromosomes (genome BosTau)) = 30"
  by (simp add: BosTau_def chromosomes_parsed add_demographic_model_def species_def
      Genome_init_def)

lemma BosTau_demographic_models: "demographic_models BosTau = [inferred_1_M_13]"
  by (simp add: BosTau_def add_demographic_model_def species_def)

lemma inferred_1_M_13_populations:
  "populations inferred_1_M_13 = [Population_init ''FILL ME'' ''FILL ME'']"
  by (simp add: inferred_1_M_13_def)

lemma inferred_1_M_13_num_sampling_populations:
  "num_sampling_populations inferred_1_M_13 = 1"
  by (simp add: num_sampling_populations_def inferred_1_M_13_populations Population_init_def)

text \<open>
  Claim C1. Importing the Bos Taurus module into an empty registry registers the species
  named "Bos Taurus" with a genome of exactly 30 chromosomes. Its model
  "IonaInferredDemography" has exactly one population, one initial configuration with
  initial size 90 and growth rate 0.0166, and 14 demographic events. For this model
  \<^verbatim>\<open>get_samples(10)\<close> is exactly ten samples with population 0 and time 0, and
  \<^verbatim>\<open>get_samples(1, 1)\<close> fails with \<^verbatim>\<open>TooManySamplePopulationsError\<close>.
\<close>

theorem BosTau_catalog_end_to_end:
  "\<exists>registry sp m.
     BosTau_module [] = Inr registry \<and>
     get_species registry ''BosTau'' = Inr sp \<and>
     name sp = ''Bos Taurus'' \<and>
     length (chromosomes (genome sp)) = 30 \<and>
     get_demographic_model sp ''IonaInferredDemography'' = Inr m \<and>
     length (populations m) = 1 \<and>
     map (\<lambda>c. (initial_size c, growth_rate c)) (population_configurations m)
       = [(90, 0.0166)] \<and>
     length (demographic_events m) = 14 \<and>
     get_samples m [10] = Inr (replicate 10 \<lparr>population = 0, time = 0\<rparr>) \<and>
     get_samples m [1, 1] = Inl TooManySamplePopulationsError"
proof -
  have sp: "get_species [BosTau] ''BosTau'' = Inr BosTau"
    by (simp add: get_species_def BosTau_def add_demographic_model_def species_def)
  have nm: "name BosTau = ''Bos Taurus''"
    by (simp add: BosTau_def add_demographic_model_def species_def)
  have m: "get_demographic_model BosTau ''IonaInferredDemography'' = Inr inferred_1_M_13"
    by (simp add: get_demographic_model_def BosTau_demographic_models)
      (simp add: inferred_1_M_13_def)
  have cfg: "map (\<lambda>c. (initial_size c, growth_rate c))
               (population_configurations inferred_1_M_13) = [(90, 0.0166)]"
    by (simp add: inferred_1_M_13_def)
  have ev: "length (demographic_events inferred_1_M_13) = 14"
    by (simp add: inferred_1_M_13_def)
  have s10: "get_samples inferred_1_M_13 [10]
               = Inr (replicate 10 \<lparr>population = 0, time = 0\<rparr>)"
    by (simp add: get_samples_def inferred_1_M_13_num_sampling_populations
        inferred_1_M_13_populations Population_init_def)
  have s11: "get_samples inferred_1_M_13 [1, 1] = Inl TooManySamplePopulationsError"
    by (simp add: get_samples_def inferred_1_M_13_num_sampling_populations)
  show ?thesis
    using BosTau_module_empty sp nm BosTau_chromosomes m cfg ev s10 s11
    by (simp add: inferred_1_M_13_populations)
qed

text \<open>
  Claim C8. The model "IonaInferredDemography" satisfies the invariant of demographic
  models: the index of its one initial configuration and the population index of each of
  its events are positions of its population sequence (all are index 0 of one
  population), every event time is non-negative, and the events come in non-decreasing
  time order, at times 1, 4, 7, 13, 19, 25, 155, 455, 655, 1755, 2355, 3355, 33155 and
  933155.
\<close>

theorem inferred_1_M_13_invariant:
  "population_indices_valid inferred_1_M_13 \<and>
   event_times_nonnegative inferred_1_M_13 \<and>
   events_in_time_order inferred_1_M_13 \<and>
   length (populations inferred_1_M_13) = 1 \<and>
   length (population_configurations inferred_1_M_13) = 1 \<and>
   set (map population_id (demographic_events inferred_1_M_13)) = {0} \<and>
   map event_time (demographic_events inferred_1_M_13)
     = [1, 4, 7, 13, 19, 25, 155, 455, 655, 1755, 2355, 3355, 33155, 933155]"
proof -
  have ev: "map event_time (demographic_events inferred_1_M_13)
     = [1, 4, 7, 13, 19, 25, 155, 455, 655, 1755, 2355, 3355, 33155, 933155]"
    by (simp add: inferred_1_M_13_def)
  have ids: "set (map population_id (demographic_events inferred_1_M_13)) = {0}"
    by (simp add: inferred_1_M_13_def)
  have cfg: "length (population_configurations inferred_1_M_13) = 1"
    by (simp add: inferred_1_M_13_def)
  have pops: "length (populations inferred_1_M_13) = 1"
    by (simp add: inferred_1_M_13_populations)
  have "list_all (\<lambda>e. 0 \<le> population_id e \<and> population_id e < 1)
          (demographic_events inferred_1_M_13)"
    by (simp add: inferred_1_M_13_def)
  then have 1: "population_indices_valid inferred_1_M_13"
    by (simp add: population_indices_valid_def cfg pops)
  have 2: "event_times_nonnegative inferred_1_M_13"
    unfolding event_times_nonnegative_def by (simp add: inferred_1_M_13_def)
  have 3: "events_in_time_order inferred_1_M_13"
    unfolding events_in_time_order_def ev by simp
  from 1 2 3 pops cfg ids ev show ?thesis by simp
qed

subsection \<open>Sample counts\<close>

lemma samples_from_zeros: "samples_from i (replicate k 0) ps = []"
proof (induction k arbitrary: i ps)
  case 0
  then show ?case by simp
next
  case (Suc k)
  then show ?case by (cases ps) simp_all
qed

lemma samples_from_padding: "samples_from i (ns @ replicate k 0) ps = samples_from i ns ps"
proof (induction i ns ps rule: samples_from.induct)
  case (1 i ps)
  then show ?case by (simp add: samples_from_zeros)
next
  case (2 i n ns)
  then show ?case by simp
next
  case (3 i n ns p ps)
  then show ?case by simp
qed

lemma samples_from_population:
  "s \<in> set (samples_from i ns ps) \<Longrightarrow> i \<le> population s \<and> population s < i + length ns"
proof (induction i ns ps rule: samples_from.induct)
  case (3 i n ns p ps)
  then show ?case by fastforce
qed simp_all

lemma samples_from_time:
  "s \<in> set (samples_from i ns ps) \<Longrightarrow> population s < i + length ps \<and> time s = sampling_time (ps ! (population s - i))"
proof (induction i ns ps rule: samples_from.induct)
  case (3 i n ns p ps)
  from "3.prems" consider "s \<in> set (replicate n \<lparr>population = i, time = sampling_time p\<rparr>)" | "s \<in> set (samples_from (Suc i) ns ps)"
    by auto
  then show ?case
  proof cases
    case 1
    then show ?thesis by auto
  next
    case 2
    from "3.IH"[OF 2] have a: "population s < Suc i + length ps" and b: "time s = sampling_time (ps ! (population s - Suc i))" by auto
    from samples_from_population[OF 2] have c: "Suc i \<le> population s" by simp
    from c have "(p # ps) ! (population s - i) = ps ! (population s - Suc i)"
      by (metis Suc_diff_Suc Suc_le_lessD diff_Suc_Suc nth_Cons_Suc)
    with a b show ?thesis by simp
  qed
qed simp_all

lemma tally_ok:
  "list_all (\<lambda>s. population s < length cs) ss \<Longrightarrow> \<exists>cs'. tally cs ss = Inr cs' \<and> length cs' = length cs"
proof (induction ss arbitrary: cs)
  case Nil
  then show ?case by simp
next
  case (Cons s ss)
  let ?cs = "cs[population s := cs ! population s + 1]"
  from Cons.prems have lt: "population s < length cs"
    and rest: "list_all (\<lambda>s. population s < length ?cs) ss" by simp_all
  from Cons.IH[OF rest] lt show ?case by simp
qed

lemma summary_rows_of_ok:
  "list_all (\<lambda>p. p < length pops \<and> p < length cs) ps \<Longrightarrow> \<exists>rows. summary_rows_of pops cs ps = Inr rows"
  by (induction ps) auto

lemma num_sampling_populations_le: "num_sampling_populations m \<le> length (populations m)"
  by (simp add: num_sampling_populations_def)

lemma get_samples_ok:
  "length counts \<le> num_sampling_populations m \<Longrightarrow>
   get_samples m counts = Inr (samples_from 0 counts (filter allow_samples (populations m)))"
  by (simp add: get_samples_def)

lemma write_simulation_summary_ok:
  assumes "list_all (\<lambda>s. population s < num_sampling_populations m) samples"
  shows "\<exists>summary. write_simulation_summary engine m contig samples seed = Inr summary"
proof -
  from assms have "list_all (\<lambda>s. population s < length (replicate (num_sampling_populations m) (0::nat))) samples"
    by simp
  from tally_ok[OF this] obtain cs where cs: "tally (replicate (num_sampling_populations m) 0) samples = Inr cs"
     and len: "length cs = num_sampling_populations m" by auto
  have "list_all (\<lambda>p. p < length (populations m) \<and> p < length cs) [0 ..< num_sampling_populations m]"
    using num_sampling_populations_le[of m] len by (simp add: list_all_iff)
  from summary_rows_of_ok[OF this] obtain rows where "summary_rows_of (populations m) cs [0 ..< num_sampling_populations m] = Inr rows" ..
  with cs show ?thesis by (simp add: write_simulation_summary_def)
qed


lemma select_model_named:
  "args_demographic_model args = Some mid \<Longrightarrow> get_demographic_model sp mid = Inr m \<Longrightarrow>
   select_model pkg sp args = Inr (m, qc_model m \<noteq> None)"
  by (simp add: select_model_def)

lemma run_simulation_too_many:
  "select_model pkg sp args = Inr (m, qc) \<Longrightarrow>
   length (args_samples args) > num_sampling_populations m \<Longrightarrow>
   run_simulation pkg sp args = ([], Exit (CannotSampleFromMoreThan (num_sampling_populations m)))"
  by (simp add: run_simulation_def)

text \<open>
  Claim C2. For every model and every sequence of sample counts: with more counts than
  sampling populations \<^verbatim>\<open>get_samples\<close> fails with \<^verbatim>\<open>TooManySamplePopulationsError\<close>, and a
  run of the front end whose selected model is this one and whose counts are these exits
  with no effect at all, so before any engine is invoked; with at most that many counts,
  the result is that of the counts padded with zeros up to the number of sampling
  populations.
\<close>

theorem too_many_counts:
  "(length counts > num_sampling_populations m \<longrightarrow>
      get_samples m counts = Inl TooManySamplePopulationsError \<and>
      (select_model pkg sp args = Inr (m, qc) \<and> args_samples args = counts \<longrightarrow>
         run_simulation pkg sp args
           = ([], Exit (CannotSampleFromMoreThan (num_sampling_populations m))))) \<and>
   (length counts \<le> num_sampling_populations m \<longrightarrow>
      get_samples m counts
        = get_samples m (counts @ replicate (num_sampling_populations m - length counts) 0))"
proof (intro conjI impI)
  assume "length counts > num_sampling_populations m"
  then show "get_samples m counts = Inl TooManySamplePopulationsError"
    by (simp add: get_samples_def)
next
  assume "length counts > num_sampling_populations m"
    and "select_model pkg sp args = Inr (m, qc) \<and> args_samples args = counts"
  then show "run_simulation pkg sp args
           = ([], Exit (CannotSampleFromMoreThan (num_sampling_populations m)))"
    by (simp add: run_simulation_too_many)
next
  assume "length counts \<le> num_sampling_populations m"
  then show "get_samples m counts
        = get_samples m (counts @ replicate (num_sampling_populations m - length counts) 0)"
    by (simp add: get_samples_def samples_from_padding)
qed

lemma three_population_model_populations:
  "populations three_population_model =
     [(Population_init ''ANC'' ''Ancestral population'')\<lparr>allow_samples := False\<rparr>,
      Population_init ''A'' ''First sampled population'',
      Population_init ''B'' ''Second sampled population'']"
  by (simp add: three_population_model_def)

lemma three_population_model_num_sampling_populations:
  "num_sampling_populations three_population_model = 2"
  by (simp add: num_sampling_populations_def three_population_model_populations Population_init_def)

lemma BosTau_get_demographic_model:
  "get_demographic_model BosTau ''IonaInferredDemography'' = Inr inferred_1_M_13"
  by (simp add: get_demographic_model_def BosTau_demographic_models)
     (simp add: inferred_1_M_13_def)

lemma inferred_1_M_13_qc_model: "qc_model inferred_1_M_13 = None"
  by (simp add: inferred_1_M_13_def)

theorem too_many_counts_witness:
  "length [1, 1 :: nat] > num_sampling_populations inferred_1_M_13 \<and>
   get_samples inferred_1_M_13 [1, 1] = Inl TooManySamplePopulationsError \<and>
   select_model example_package BosTau (example_args\<lparr>args_samples := [1, 1]\<rparr>)
     = Inr (inferred_1_M_13, False) \<and>
   run_simulation example_package BosTau (example_args\<lparr>args_samples := [1, 1]\<rparr>)
     = ([], Exit (CannotSampleFromMoreThan 1)) \<and>
   length [3 :: nat] \<le> num_sampling_populations three_population_model \<and>
   get_samples three_population_model [3] = get_samples three_population_model [3, 0] \<and>
   get_samples three_population_model [3]
     = Inr (replicate 3 \<lparr>population = 0, time = 0\<rparr>)"
proof -
  have sel: "select_model example_package BosTau (example_args\<lparr>args_samples := [1, 1]\<rparr>)
     = Inr (inferred_1_M_13, False)"
    using select_model_named[of "example_args\<lparr>args_samples := [1, 1]\<rparr>" "''IonaInferredDemography''" BosTau inferred_1_M_13 example_package]
    by (simp add: example_args_def BosTau_get_demographic_model inferred_1_M_13_qc_model)
  have val: "get_samples three_population_model [3]
     = Inr (replicate 3 \<lparr>population = 0, time = 0\<rparr>)"
    by (simp add: get_samples_def three_population_model_num_sampling_populations
        three_population_model_populations Population_init_def numeral_3_eq_3)
  show ?thesis
    using too_many_counts[of inferred_1_M_13 "[1, 1]" example_package BosTau
        "example_args\<lparr>args_samples := [1, 1]\<rparr>" False]
      too_many_counts[of three_population_model "[3]"] sel val
    by (simp add: inferred_1_M_13_num_sampling_populations
        three_population_model_num_sampling_populations numeral_2_eq_2)
qed

lemma samples_and_summary_ok:
  assumes "length counts \<le> num_sampling_populations m"
  shows "\<exists>samples.
           get_samples m counts = Inr samples \<and>
           list_all (\<lambda>s. population s < num_sampling_populations m) samples \<and>
           num_sampling_populations m \<le> length (populations m) \<and>
           (\<exists>summary. write_simulation_summary engine m contig samples seed = Inr summary)"
proof -
  let ?samples = "samples_from 0 counts (filter allow_samples (populations m))"
  have bound: "list_all (\<lambda>s. population s < num_sampling_populations m) ?samples"
    unfolding list_all_iff
  proof
    fix s assume "s \<in> set ?samples"
    from samples_from_population[OF this] assms
    show "population s < num_sampling_populations m" by simp
  qed
  from write_simulation_summary_ok[OF bound]
  have "\<exists>summary. write_simulation_summary engine m contig ?samples seed = Inr summary" .
  with bound get_samples_ok[OF assms] num_sampling_populations_le[of m]
  show ?thesis by simp
qed

text \<open>
  Claim C10, as amended. For every model and every sequence of at most
  \<^verbatim>\<open>num_sampling_populations\<close> counts, \<^verbatim>\<open>get_samples\<close> returns samples whose population
  index is below \<^verbatim>\<open>num_sampling_populations\<close>, which is at most the number of populations,
  so \<^verbatim>\<open>write_simulation_summary\<close> returns its summary: neither the tally nor the lookups
  \<^verbatim>\<open>populations[p]\<close> raise \<^verbatim>\<open>IndexError\<close>.
\<close>

theorem summary_indices_in_bounds:
  assumes "length counts \<le> num_sampling_populations m"
  shows "\<exists>samples.
           get_samples m counts = Inr samples \<and>
           list_all (\<lambda>s. population s < num_sampling_populations m) samples \<and>
           num_sampling_populations m \<le> length (populations m) \<and>
           (\<exists>summary. write_simulation_summary engine m contig samples seed = Inr summary)"
  using assms by (rule samples_and_summary_ok)

theorem summary_indices_in_bounds_witness:
  "length [10 :: nat] \<le> num_sampling_populations inferred_1_M_13 \<and>
   (\<exists>samples.
      get_samples inferred_1_M_13 [10] = Inr samples \<and>
      list_all (\<lambda>s. population s < num_sampling_populations inferred_1_M_13) samples \<and>
      num_sampling_populations inferred_1_M_13 \<le> length (populations inferred_1_M_13) \<and>
      (\<exists>summary. write_simulation_summary example_engine inferred_1_M_13 chr1_contig samples None
                   = Inr summary))"
  using summary_indices_in_bounds[of "[10]" inferred_1_M_13 example_engine chr1_contig None]
  by (simp add: inferred_1_M_13_num_sampling_populations)

text \<open>
  The sampling populations need not be the first \<^verbatim>\<open>num_sampling_populations\<close> entries of
  the population sequence: in the three-population model they are the second and third
  entry, and the summary of three samples of the first sampling population lists them
  under the ancestral population.
\<close>

theorem sampling_populations_not_first:
  "filter allow_samples (populations three_population_model)
     \<noteq> take (num_sampling_populations three_population_model)
          (populations three_population_model) \<and>
   (\<exists>samples summary.
      get_samples three_population_model [3] = Inr samples \<and>
      write_simulation_summary example_engine three_population_model chr1_contig samples None
        = Inr summary \<and>
      summary_rows summary = [(''ANC'', 3, 0), (''A'', 0, 0)])"
  by (simp add: get_samples_def write_simulation_summary_def
      three_population_model_num_sampling_populations three_population_model_populations
      Population_init_def numeral_3_eq_3 numeral_2_eq_2)

subsection \<open>Merging citations\<close>

lemma merge_snoc: "merge (cs @ [c]) = merge_into c (merge cs)"
  by (simp add: merge_def)

lemma merge_Nil: "merge [] = []"
  by (simp add: merge_def)

lemma merge_into_no_doi:
  "filter (\<lambda>x. doi x = None) (merge_into c acc)
     = filter (\<lambda>x. doi x = None) acc @ (if doi c = None then [c] else [])"
  by (induction acc) auto

lemma merge_no_doi: "filter (\<lambda>x. doi x = None) (merge cs) = filter (\<lambda>x. doi x = None) cs"
  by (induction cs rule: rev_induct) (simp_all add: merge_Nil merge_snoc merge_into_no_doi)

lemma merge_into_dois:
  "map doi (filter has_doi (merge_into c acc)) =
     (if has_doi c \<and> doi c \<notin> set (map doi (filter has_doi acc))
      then map doi (filter has_doi acc) @ [doi c]
      else map doi (filter has_doi acc))"
proof (induction acc)
  case Nil
  then show ?case by simp
next
  case (Cons x xs)
  show ?case
  proof (cases "doi c \<noteq> None \<and> doi x = doi c")
    case True
    then have "has_doi c" "has_doi x" "has_doi (x\<lparr>reasons := reasons x \<union> reasons c\<rparr>)"
      by (simp_all add: has_doi_def)
    with True show ?thesis by simp
  next
    case False
    then have "has_doi c \<Longrightarrow> doi c \<noteq> doi x"
      by (auto simp: has_doi_def)
    with False Cons.IH show ?thesis by auto
  qed
qed

lemma first_seen_snoc:
  "first_seen (xs @ [x]) = (if x \<in> set (first_seen xs) then first_seen xs else first_seen xs @ [x])"
  by (simp add: first_seen_def)

lemma set_first_seen: "set (first_seen xs) = set xs"
  by (simp add: first_seen_def)

lemma distinct_first_seen: "distinct (first_seen xs)"
  by (simp add: first_seen_def)

lemma merge_dois:
  "map doi (filter has_doi (merge cs)) = first_seen (map doi (filter has_doi cs))"
proof (induction cs rule: rev_induct)
  case Nil
  then show ?case by (simp add: merge_Nil first_seen_def)
next
  case (snoc c cs)
  then show ?case
    by (simp add: merge_snoc merge_into_dois first_seen_snoc set_first_seen)
qed

lemma merge_into_cases:
  assumes "distinct (map doi (filter has_doi acc))" and "r \<in> set (merge_into c acc)"
  shows "(r \<in> set acc \<and> (\<not> has_doi c \<or> doi r \<noteq> doi c))
       \<or> (has_doi c \<and> (\<exists>x \<in> set acc. doi x = doi c \<and> r = x\<lparr>reasons := reasons x \<union> reasons c\<rparr>))
       \<or> (r = c \<and> (\<not> has_doi c \<or> doi c \<notin> doi ` set acc))"
  using assms
proof (induction acc)
  case Nil
  then show ?case by simp
next
  case (Cons x xs)
  show ?case
  proof (cases "has_doi c \<and> doi x = doi c")
    case True
    with Cons.prems(2) have "r = x\<lparr>reasons := reasons x \<union> reasons c\<rparr> \<or> r \<in> set xs"
      by (auto simp: has_doi_def)
    then show ?thesis
    proof
      assume "r = x\<lparr>reasons := reasons x \<union> reasons c\<rparr>"
      with True show ?thesis by auto
    next
      assume r: "r \<in> set xs"
      from True have hx: "has_doi x" by (simp add: has_doi_def)
      with True Cons.prems(1) have notin: "doi c \<notin> doi ` set (filter has_doi xs)"
        by simp
      have "doi r \<noteq> doi c"
      proof
        assume eq: "doi r = doi c"
        with True have "has_doi r" by (simp add: has_doi_def)
        with r have "r \<in> set (filter has_doi xs)" by simp
        then have "doi r \<in> doi ` set (filter has_doi xs)" by (rule imageI)
        with eq have "doi c \<in> doi ` set (filter has_doi xs)" by simp
        with notin show False ..
      qed
      with r show ?thesis by simp
    qed
  next
    case False
    with Cons.prems(2) have "r = x \<or> r \<in> set (merge_into c xs)"
      by (auto simp: has_doi_def)
    then show ?thesis
    proof
      assume "r = x"
      with False show ?thesis by auto
    next
      assume r: "r \<in> set (merge_into c xs)"
      from Cons.prems(1) have "distinct (map doi (filter has_doi xs))"
        by (simp split: if_splits)
      from Cons.IH[OF this r] False show ?thesis by auto
    qed
  qed
qed

lemma group_reasons_snoc:
  "group_reasons d (cs @ [c]) = group_reasons d cs \<union> (if doi c = d then reasons c else {})"
  by (auto simp: group_reasons_def)

lemma group_reasons_absent: "d \<notin> doi ` set cs \<Longrightarrow> group_reasons d cs = {}"
  by (auto simp: group_reasons_def)

lemma merge_doi_set: "has_doi c \<Longrightarrow> doi c \<in> doi ` set (merge cs) \<longleftrightarrow> doi c \<in> doi ` set cs"
proof -
  assume h: "has_doi c"
  have "set (map doi (filter has_doi (merge cs))) = set (map doi (filter has_doi cs))"
    by (simp add: merge_dois set_first_seen)
  then have eq: "doi ` {x \<in> set (merge cs). has_doi x} = doi ` {x \<in> set cs. has_doi x}"
    by simp
  have "\<And>xs. doi c \<in> doi ` set xs \<longleftrightarrow> doi c \<in> doi ` {x \<in> set xs. has_doi x}"
    using h by (auto simp: has_doi_def image_iff)
  with eq show ?thesis by simp
qed

lemma merge_reasons:
  "r \<in> set (merge cs) \<Longrightarrow> has_doi r \<Longrightarrow> reasons r = group_reasons (doi r) cs"
proof (induction cs arbitrary: r rule: rev_induct)
  case Nil
  then show ?case by (simp add: merge_Nil)
next
  case (snoc c cs)
  have d: "distinct (map doi (filter has_doi (merge cs)))"
    by (simp add: merge_dois distinct_first_seen)
  from snoc.prems(1) have "r \<in> set (merge_into c (merge cs))"
    by (simp add: merge_snoc)
  from merge_into_cases[OF d this]
  consider (old) "r \<in> set (merge cs)" "\<not> has_doi c \<or> doi r \<noteq> doi c"
    | (upd) x where "has_doi c" "x \<in> set (merge cs)" "doi x = doi c"
        "r = x\<lparr>reasons := reasons x \<union> reasons c\<rparr>"
    | (new) "r = c" "\<not> has_doi c \<or> doi c \<notin> doi ` set (merge cs)"
    by blast
  then show ?case
  proof cases
    case old
    with snoc.prems(2) have "doi c \<noteq> doi r" by (auto simp: has_doi_def)
    with snoc.IH[OF old(1) snoc.prems(2)] show ?thesis
      by (simp add: group_reasons_snoc)
  next
    case upd
    from upd(1,3) have "has_doi x" by (simp add: has_doi_def)
    from snoc.IH[OF upd(2) this] upd show ?thesis
      by (simp add: group_reasons_snoc)
  next
    case new
    with snoc.prems(2) have "doi c \<notin> doi ` set (merge cs)" by simp
    with new(1) snoc.prems(2) have "doi c \<notin> doi ` set cs"
      by (simp add: merge_doi_set)
    from group_reasons_absent[OF this] new(1) show ?thesis
      by (simp add: group_reasons_snoc)
  qed
qed


lemma find_snoc:
  "find P (xs @ [x]) = (case find P xs of None \<Rightarrow> (if P x then Some x else None) | Some y \<Rightarrow> Some y)"
  by (induction xs) simp_all

lemma find_doi_None: "d \<notin> doi ` set cs \<Longrightarrow> find (\<lambda>c. doi c = d) cs = None"
  by (auto simp: find_None_iff)

lemma merge_representative:
  "r \<in> set (merge cs) \<Longrightarrow> has_doi r \<Longrightarrow>
   \<exists>c. find (\<lambda>c. doi c = doi r) cs = Some c \<and> r = c\<lparr>reasons := group_reasons (doi r) cs\<rparr>"
proof (induction cs arbitrary: r rule: rev_induct)
  case Nil
  then show ?case by (simp add: merge_Nil)
next
  case (snoc c cs)
  have d: "distinct (map doi (filter has_doi (merge cs)))"
    by (simp add: merge_dois distinct_first_seen)
  from snoc.prems(1) have "r \<in> set (merge_into c (merge cs))"
    by (simp add: merge_snoc)
  from merge_into_cases[OF d this]
  consider (old) "r \<in> set (merge cs)" "\<not> has_doi c \<or> doi r \<noteq> doi c"
    | (upd) x where "has_doi c" "x \<in> set (merge cs)" "doi x = doi c"
        "r = x\<lparr>reasons := reasons x \<union> reasons c\<rparr>"
    | (new) "r = c" "\<not> has_doi c \<or> doi c \<notin> doi ` set (merge cs)"
    by blast
  then show ?case
  proof cases
    case old
    with snoc.prems(2) have "doi c \<noteq> doi r" by (auto simp: has_doi_def)
    with snoc.IH[OF old(1) snoc.prems(2)] show ?thesis
      by (auto simp: group_reasons_snoc find_snoc)
  next
    case upd
    from upd(1,3) have hx: "has_doi x" by (simp add: has_doi_def)
    define G where "G = group_reasons (doi c) cs"
    from snoc.IH[OF upd(2) hx] upd(3) obtain c0 where
      f: "find (\<lambda>c'. doi c' = doi c) cs = Some c0" and x: "x = c0\<lparr>reasons := G\<rparr>"
      by (auto simp: G_def)
    from x upd(4) have r: "r = c0\<lparr>reasons := G \<union> reasons c\<rparr>" by simp
    from x upd(3) have dr: "doi r = doi c" by (simp add: r)
    have "find (\<lambda>c'. doi c' = doi r) (cs @ [c]) = Some c0"
      unfolding dr by (simp add: find_snoc f)
    moreover have "r = c0\<lparr>reasons := group_reasons (doi r) (cs @ [c])\<rparr>"
      unfolding dr by (simp add: group_reasons_snoc r G_def)
    ultimately show ?thesis by blast
  next
    case new
    with snoc.prems(2) have "doi c \<notin> doi ` set (merge cs)" by simp
    with new(1) snoc.prems(2) have notin: "doi c \<notin> doi ` set cs"
      by (simp add: merge_doi_set)
    from group_reasons_absent[OF notin] find_doi_None[OF notin] new(1) show ?thesis
      by (simp add: group_reasons_snoc find_snoc)
  qed
qed

text \<open>
  Claim C3. For every finite sequence of citations, \<open>merge\<close> keeps the citations without a
  doi exactly as they are, each one and in their order; the dois of its other entries are
  the distinct dois of the input in first-seen order, each exactly once; and the entry of
  a doi is the first-seen citation of that doi with its reason set replaced by the union
  of the reason sets of all input citations of that doi. Being a function of the input
  sequence, the result is determined by it.
\<close>

theorem merge_groups_by_doi:
  "filter (\<lambda>c. doi c = None) (merge cs) = filter (\<lambda>c. doi c = None) cs \<and>
   map doi (filter has_doi (merge cs)) = first_seen (map doi (filter has_doi cs)) \<and>
   distinct (map doi (filter has_doi (merge cs))) \<and>
   (\<forall>r \<in> set (merge cs). has_doi r \<longrightarrow>
      reasons r = group_reasons (doi r) cs \<and>
      (\<exists>c. find (\<lambda>c. doi c = doi r) cs = Some c \<and> r = c\<lparr>reasons := reasons r\<rparr>))"
proof (intro conjI ballI impI)
  show "filter (\<lambda>c. doi c = None) (merge cs) = filter (\<lambda>c. doi c = None) cs"
    by (rule merge_no_doi)
  show "map doi (filter has_doi (merge cs)) = first_seen (map doi (filter has_doi cs))"
    by (rule merge_dois)
  show "distinct (map doi (filter has_doi (merge cs)))"
    by (simp add: merge_dois distinct_first_seen)
next
  fix r assume "r \<in> set (merge cs)" "has_doi r"
  then show "reasons r = group_reasons (doi r) cs"
    by (rule merge_reasons)
next
  fix r assume r: "r \<in> set (merge cs)" "has_doi r"
  from merge_representative[OF r] merge_reasons[OF r]
  show "\<exists>c. find (\<lambda>c. doi c = doi r) cs = Some c \<and> r = c\<lparr>reasons := reasons r\<rparr>"
    by auto
qed

lemma example_citations_merged:
  "merge example_citations =
     [assembly_citation, gen_time_citation\<lparr>reasons := {GEN_TIME, POP_SIZE}\<rparr>,
      anonymous_citation, anonymous_citation]"
  by (simp add: merge_def example_citations_def assembly_citation_def gen_time_citation_def
      pop_size_citation_def anonymous_citation_def insert_commute)

theorem merge_groups_by_doi_witness:
  "gen_time_citation\<lparr>reasons := {GEN_TIME, POP_SIZE}\<rparr> \<in> set (merge example_citations) \<and>
   has_doi (gen_time_citation\<lparr>reasons := {GEN_TIME, POP_SIZE}\<rparr>) \<and>
   {GEN_TIME, POP_SIZE}
     = group_reasons (Some ''https://doi.org/10.1093/molbev/mst125'') example_citations \<and>
   find (\<lambda>c. doi c = Some ''https://doi.org/10.1093/molbev/mst125'') example_citations
     = Some gen_time_citation \<and>
   filter (\<lambda>c. doi c = None) (merge example_citations)
     = [anonymous_citation, anonymous_citation] \<and>
   map doi (filter has_doi (merge example_citations))
     = [Some ''https://doi.org/10.1093/gigascience/giaa021'',
        Some ''https://doi.org/10.1093/molbev/mst125'']"
proof -
  let ?r = "gen_time_citation\<lparr>reasons := {GEN_TIME, POP_SIZE}\<rparr>"
  have mem: "?r \<in> set (merge example_citations)"
    by (simp add: example_citations_merged)
  have hd: "has_doi ?r"
    by (simp add: has_doi_def gen_time_citation_def)
  have d: "doi ?r = Some ''https://doi.org/10.1093/molbev/mst125''"
    by (simp add: gen_time_citation_def)
  from merge_groups_by_doi[of example_citations] mem hd
  have "reasons ?r = group_reasons (doi ?r) example_citations"
    and "\<exists>c. find (\<lambda>c. doi c = doi ?r) example_citations = Some c \<and> ?r = c\<lparr>reasons := reasons ?r\<rparr>"
    and "filter (\<lambda>c. doi c = None) (merge example_citations) = filter (\<lambda>c. doi c = None) example_citations"
    and "map doi (filter has_doi (merge example_citations)) = first_seen (map doi (filter has_doi example_citations))"
    by blast+
  then show ?thesis using mem hd
    by (simp add: d example_citations_def assembly_citation_def gen_time_citation_def
      pop_size_citation_def anonymous_citation_def has_doi_def first_seen_def)
qed

subsection \<open>Runs of the front end\<close>

lemma select_model_default:
  "args_demographic_model args = None \<Longrightarrow>
   select_model pkg sp args =
     Inr ((PiecewiseConstantSize (pcs_attributes pkg) (population_size sp))
            \<lparr>generation_time := species_generation_time sp,
             citations := pcs_citations (pcs_attributes pkg) @ population_size_citations sp
                          @ generation_time_citations sp\<rparr>, True)"
  by (simp add: select_model_def PiecewiseConstantSize_def Let_def)

lemma select_model_qc_complete:
  "select_model pkg sp args = Inr (m, qc) \<Longrightarrow>
   qc = (args_demographic_model args = None \<or> qc_model m \<noteq> None)"
  by (auto simp: select_model_def Let_def split: option.splits sum.splits)

text \<open>The run, once the model is selected and every step before the engine has succeeded.\<close>

lemma run_simulation_reaches_engine:
  assumes sel: "select_model pkg sp args = Inr (m, qc)"
    and cnt: "length (args_samples args) \<le> num_sampling_populations m"
    and ctg: "get_contig (genetic_map_data pkg) sp (args_chromosome args) (args_genetic_map args)
                (args_length_multiplier args) = Inr contig"
    and eng: "get_engine pkg (args_engine args) = Inr engine"
  shows "\<exists>samples summary request.
           get_samples m (args_samples args) = Inr samples \<and>
           write_simulation_summary engine m contig samples (args_seed args) = Inr summary \<and>
           request = \<lparr>request_args = args, request_model = m,
                      request_contig = contig, request_samples = samples\<rparr> \<and>
           run_simulation pkg sp args =
             ([RunningInfo (model_id m) (species_id sp) (length samples) (engine_id engine),
               SummaryWarning summary]
              @ (if qc then [] else [QCWarning (model_id m)])
              @ [EngineSimulate request (simulate engine request)]
              @ (case simulate engine request of
                   Inl e \<Rightarrow> []
                 | Inr ts \<Rightarrow>
                     [SummariseUsage]
                     @ (case ts of None \<Rightarrow> [] | Some t \<Rightarrow> [WriteOutput t (args_output args)])
                     @ (if qc then [CitationRequest
                                      (get_citations (stdpopsim_citation pkg) engine m contig sp)]
                        else [])
                     @ (case args_bibtex_file args of
                          None \<Rightarrow> []
                        | Some f \<Rightarrow>
                            [WriteBibtex f
                               (get_citations (stdpopsim_citation pkg) engine m contig sp)])),
              (case simulate engine request of Inl e \<Rightarrow> Raised e | Inr ts \<Rightarrow> Returned))"
proof -
  from samples_and_summary_ok[OF cnt, of engine contig "args_seed args"]
  obtain samples summary where
    s: "get_samples m (args_samples args) = Inr samples" and
    w: "write_simulation_summary engine m contig samples (args_seed args) = Inr summary"
    by blast
  from sel cnt ctg eng s w show ?thesis
    by (simp add: run_simulation_def Let_def split: sum.splits)
qed


text \<open>
  Claim C6. In every run, \<^verbatim>\<open>write_output\<close> is called with a tree sequence, and with the
  output path of the arguments, if and only if the engine's \<^verbatim>\<open>simulate\<close> returned that tree
  sequence; when it returned \<open>None\<close>, the dry run, nothing is written.
\<close>

theorem write_output_iff_tree_sequence:
  "(\<forall>ts out. WriteOutput ts out \<in> set (fst (run_simulation pkg sp args)) \<longleftrightarrow>
      out = args_output args \<and>
      (\<exists>request. EngineSimulate request (Inr (Some ts)) \<in> set (fst (run_simulation pkg sp args)))) \<and>
   ((\<exists>request. EngineSimulate request (Inr None) \<in> set (fst (run_simulation pkg sp args))) \<longrightarrow>
      (\<forall>ts out. WriteOutput ts out \<notin> set (fst (run_simulation pkg sp args))))"
  by (auto simp: run_simulation_def Let_def split: sum.splits option.splits prod.splits if_splits)

text \<open>The run of the example arguments, as a dry run and as a simulation.\<close>

lemma BosTau_genome_chromosomes:
  "chromosomes (genome BosTau) = projr (parse_chromosomes (splitlines chromosome_data))"
  by (simp add: BosTau_def add_demographic_model_def species_def Genome_init_def)

lemma BosTau_first_chromosome:
  "\<exists>rest. chromosomes (genome BosTau) =
     \<lparr>chromosome_id = ''chr1'', chromosome_length = 158534110,
      mutation_rate = 1 / 10 ^ 8, recombination_rate = 1 / 10 ^ 8\<rparr> # rest"
  by (simp add: BosTau_genome_chromosomes chromosomes_parsed)

lemma BosTau_chr1_contig:
  "get_contig map_data BosTau (Some ''chr1'') None 1 = Inr chr1_contig"
proof -
  from BosTau_first_chromosome obtain rest where
    "chromosomes (genome BosTau) =
       \<lparr>chromosome_id = ''chr1'', chromosome_length = 158534110,
        mutation_rate = 1 / 10 ^ 8, recombination_rate = 1 / 10 ^ 8\<rparr> # rest" ..
  then show ?thesis
    by (simp add: get_contig_def get_chromosome_def chr1_contig_def)
qed

lemma BosTau_select_model:
  "args_demographic_model args = Some ''IonaInferredDemography'' \<Longrightarrow>
   select_model pkg BosTau args = Inr (inferred_1_M_13, False)"
  using select_model_named[of args "''IonaInferredDemography''" BosTau inferred_1_M_13 pkg]
  by (simp add: BosTau_get_demographic_model inferred_1_M_13_qc_model)

lemma inferred_1_M_13_ten_samples:
  "get_samples inferred_1_M_13 [10] = Inr (replicate 10 \<lparr>population = 0, time = 0\<rparr>)"
  by (simp add: get_samples_def inferred_1_M_13_num_sampling_populations
      inferred_1_M_13_populations Population_init_def)

lemma example_run:
  "\<exists>summary request.
     request_model request = inferred_1_M_13 \<and>
     run_simulation example_package BosTau (example_args\<lparr>args_dry_run := d\<rparr>) =
       ([RunningInfo ''IonaInferredDemography'' ''BosTau'' 10 ''msprime'',
         SummaryWarning summary,
         QCWarning ''IonaInferredDemography'',
         EngineSimulate request (if d then Inr None else Inr (Some 10)),
         SummariseUsage]
        @ (if d then [] else [WriteOutput 10 None]),
        Returned)"
proof -
  let ?args = "example_args\<lparr>args_dry_run := d\<rparr>"
  let ?samples = "replicate 10 \<lparr>population = 0, time = 0\<rparr>"
  let ?request = "\<lparr>request_args = ?args, request_model = inferred_1_M_13,
                   request_contig = chr1_contig, request_samples = ?samples\<rparr>"
  have sel: "select_model example_package BosTau ?args = Inr (inferred_1_M_13, False)"
    by (rule BosTau_select_model) (simp add: example_args_def)
  have smp: "args_samples ?args = [10]" and bib: "args_bibtex_file ?args = None"
    and out: "args_output ?args = None" and seed: "args_seed ?args = None"
    by (simp_all add: example_args_def)
  have ctg: "get_contig (genetic_map_data example_package) BosTau (args_chromosome ?args)
               (args_genetic_map ?args) (args_length_multiplier ?args) = Inr chr1_contig"
    by (simp add: example_args_def BosTau_chr1_contig)
  have eng: "get_engine example_package (args_engine ?args) = Inr example_engine"
    by (simp add: example_args_def example_package_def)
  have "list_all (\<lambda>s. population s < num_sampling_populations inferred_1_M_13) ?samples"
    by (simp add: inferred_1_M_13_num_sampling_populations list_all_iff)
  from write_simulation_summary_ok[OF this] obtain summary where
    w: "write_simulation_summary example_engine inferred_1_M_13 chr1_contig ?samples None
          = Inr summary"
    by blast
  have ids: "model_id inferred_1_M_13 = ''IonaInferredDemography''"
    "species_id BosTau = ''BosTau''" "engine_id example_engine = ''msprime''"
    by (simp_all add: inferred_1_M_13_def BosTau_def add_demographic_model_def species_def
        example_engine_def)
  have sim: "simulate example_engine ?request = (if d then Inr None else Inr (Some 10))"
    by (simp add: example_engine_def)
  have "run_simulation example_package BosTau ?args =
       ([RunningInfo ''IonaInferredDemography'' ''BosTau'' 10 ''msprime'',
         SummaryWarning summary,
         QCWarning ''IonaInferredDemography'',
         EngineSimulate ?request (if d then Inr None else Inr (Some 10)),
         SummariseUsage]
        @ (if d then [] else [WriteOutput 10 None]),
        Returned)"
    unfolding run_simulation_def sel smp ctg eng seed bib out
    by (simp add: inferred_1_M_13_num_sampling_populations inferred_1_M_13_ten_samples
        w ids sim)
  moreover have "request_model ?request = inferred_1_M_13" by simp
  ultimately show ?thesis by blast
qed

lemma example_run_dry:
  "\<exists>summary request.
     fst (run_simulation example_package BosTau (example_args\<lparr>args_dry_run := True\<rparr>)) =
       [RunningInfo ''IonaInferredDemography'' ''BosTau'' 10 ''msprime'',
        SummaryWarning summary,
        QCWarning ''IonaInferredDemography'',
        EngineSimulate request (Inr None),
        SummariseUsage]"
proof -
  from example_run[of True] obtain summary request where
    "run_simulation example_package BosTau (example_args\<lparr>args_dry_run := True\<rparr>) =
       ([RunningInfo ''IonaInferredDemography'' ''BosTau'' 10 ''msprime'',
         SummaryWarning summary,
         QCWarning ''IonaInferredDemography'',
         EngineSimulate request (if True then Inr None else Inr (Some 10)),
         SummariseUsage]
        @ (if True then [] else [WriteOutput 10 None]),
        Returned)"
    by blast
  then have
    "fst (run_simulation example_package BosTau (example_args\<lparr>args_dry_run := True\<rparr>)) =
       [RunningInfo ''IonaInferredDemography'' ''BosTau'' 10 ''msprime'',
        SummaryWarning summary,
        QCWarning ''IonaInferredDemography'',
        EngineSimulate request (Inr None),
        SummariseUsage]"
    by simp
  then show ?thesis by blast
qed

lemma example_run_simulated:
  "\<exists>summary request.
     request_model request = inferred_1_M_13 \<and>
     fst (run_simulation example_package BosTau (example_args\<lparr>args_dry_run := False\<rparr>)) =
       [RunningInfo ''IonaInferredDemography'' ''BosTau'' 10 ''msprime'',
        SummaryWarning summary,
        QCWarning ''IonaInferredDemography'',
        EngineSimulate request (Inr (Some 10)),
        SummariseUsage,
        WriteOutput 10 None]"
proof -
  from example_run[of False] obtain summary request where
    "request_model request = inferred_1_M_13" and
    "run_simulation example_package BosTau (example_args\<lparr>args_dry_run := False\<rparr>) =
       ([RunningInfo ''IonaInferredDemography'' ''BosTau'' 10 ''msprime'',
         SummaryWarning summary,
         QCWarning ''IonaInferredDemography'',
         EngineSimulate request (if False then Inr None else Inr (Some 10)),
         SummariseUsage]
        @ (if False then [] else [WriteOutput 10 None]),
        Returned)"
    by blast
  then have
    "request_model request = inferred_1_M_13 \<and>
     fst (run_simulation example_package BosTau (example_args\<lparr>args_dry_run := False\<rparr>)) =
       [RunningInfo ''IonaInferredDemography'' ''BosTau'' 10 ''msprime'',
        SummaryWarning summary,
        QCWarning ''IonaInferredDemography'',
        EngineSimulate request (Inr (Some 10)),
        SummariseUsage,
        WriteOutput 10 None]"
    by simp
  then show ?thesis by blast
qed

theorem write_output_iff_tree_sequence_witness:
  "(\<exists>request. EngineSimulate request (Inr None)
       \<in> set (fst (run_simulation example_package BosTau (example_args\<lparr>args_dry_run := True\<rparr>)))) \<and>
   WriteOutput 10 None
     \<notin> set (fst (run_simulation example_package BosTau (example_args\<lparr>args_dry_run := True\<rparr>))) \<and>
   (\<exists>request. EngineSimulate request (Inr (Some 10))
       \<in> set (fst (run_simulation example_package BosTau (example_args\<lparr>args_dry_run := False\<rparr>)))) \<and>
   WriteOutput 10 None
     \<in> set (fst (run_simulation example_package BosTau (example_args\<lparr>args_dry_run := False\<rparr>)))"
proof -
  let ?dry = "fst (run_simulation example_package BosTau (example_args\<lparr>args_dry_run := True\<rparr>))"
  let ?sim = "fst (run_simulation example_package BosTau (example_args\<lparr>args_dry_run := False\<rparr>))"
  from example_run_dry obtain s1 r1 where
    "?dry = [RunningInfo ''IonaInferredDemography'' ''BosTau'' 10 ''msprime'',
        SummaryWarning s1, QCWarning ''IonaInferredDemography'',
        EngineSimulate r1 (Inr None), SummariseUsage]"
    by blast
  then have "EngineSimulate r1 (Inr None) \<in> set ?dry" by simp
  then have dry: "\<exists>request. EngineSimulate request (Inr None) \<in> set ?dry" ..
  from example_run_simulated obtain s2 r2 where
    "?sim = [RunningInfo ''IonaInferredDemography'' ''BosTau'' 10 ''msprime'',
        SummaryWarning s2, QCWarning ''IonaInferredDemography'',
        EngineSimulate r2 (Inr (Some 10)), SummariseUsage, WriteOutput 10 None]"
    by blast
  then have "EngineSimulate r2 (Inr (Some 10)) \<in> set ?sim" by simp
  then have sim: "\<exists>request. EngineSimulate request (Inr (Some 10)) \<in> set ?sim" ..
  have out: "args_output (example_args\<lparr>args_dry_run := False\<rparr>) = None"
    by (simp add: example_args_def)
  note dry_run = write_output_iff_tree_sequence[of example_package BosTau
      "example_args\<lparr>args_dry_run := True\<rparr>"]
  note sim_run = write_output_iff_tree_sequence[of example_package BosTau
      "example_args\<lparr>args_dry_run := False\<rparr>"]
  from dry_run[THEN conjunct2, THEN mp, OF dry]
  have 1: "WriteOutput 10 None \<notin> set ?dry" by simp
  from sim_run[THEN conjunct1, THEN spec, THEN spec, of 10 None] sim out
  have 2: "WriteOutput 10 None \<in> set ?sim" by simp
  from dry sim 1 2 show ?thesis by simp
qed

lemma engine_request:
  "EngineSimulate request result \<in> set (fst (run_simulation pkg sp args)) \<Longrightarrow>
   (\<exists>qc. select_model pkg sp args = Inr (request_model request, qc)) \<and>
   get_contig (genetic_map_data pkg) sp (args_chromosome args) (args_genetic_map args)
     (args_length_multiplier args) = Inr (request_contig request) \<and>
   get_samples (request_model request) (args_samples args) = Inr (request_samples request) \<and>
   request_args request = args"
  by (auto simp: run_simulation_def Let_def split: sum.splits option.splits prod.splits if_splits)

lemma citation_request_qc_complete:
  "CitationRequest cs \<in> set (fst (run_simulation pkg sp args)) \<Longrightarrow>
   \<exists>m. select_model pkg sp args = Inr (m, True)"
  by (auto simp: run_simulation_def Let_def split: sum.splits option.splits prod.splits if_splits)

lemma no_citation_request:
  "select_model pkg sp args = Inr (m, False) \<Longrightarrow>
   CitationRequest cs \<notin> set (fst (run_simulation pkg sp args))"
  using citation_request_qc_complete[of cs pkg sp args] by auto

text \<open>
  Claim C4. In a run whose named model is not quality-controlled (\<^verbatim>\<open>qc_model\<close> is \<open>None\<close>)
  and whose sample counts, contig and engine are resolved, the warning is emitted and the
  engine is invoked right after it, with that model; the run ends as the engine call
  ends, and no citation request is written. In any run, a citation request is written only
  if the model counts as quality-controlled, and it counts as such exactly when no model
  is named (the default model) or its \<^verbatim>\<open>qc_model\<close> is set.
\<close>

theorem qc_warning_is_advisory:
  "(args_demographic_model args = Some mid \<and> get_demographic_model sp mid = Inr m \<and>
    qc_model m = None \<and>
    length (args_samples args) \<le> num_sampling_populations m \<and>
    get_contig (genetic_map_data pkg) sp (args_chromosome args) (args_genetic_map args)
      (args_length_multiplier args) = Inr contig \<and>
    get_engine pkg (args_engine args) = Inr engine \<longrightarrow>
      (\<exists>before request after.
         fst (run_simulation pkg sp args)
           = before @ [QCWarning (model_id m), EngineSimulate request (simulate engine request)]
             @ after \<and>
         request_model request = m \<and>
         snd (run_simulation pkg sp args)
           = (case simulate engine request of Inl e \<Rightarrow> Raised e | Inr ts \<Rightarrow> Returned) \<and>
         (\<forall>cs. CitationRequest cs \<notin> set (fst (run_simulation pkg sp args))))) \<and>
   (\<forall>cs. CitationRequest cs \<in> set (fst (run_simulation pkg sp args)) \<longrightarrow>
      (\<exists>m'. select_model pkg sp args = Inr (m', True))) \<and>
   (\<forall>m' qc. select_model pkg sp args = Inr (m', qc) \<longrightarrow>
      qc = (args_demographic_model args = None \<or> qc_model m' \<noteq> None))"
proof (intro conjI impI allI)
  assume h: "args_demographic_model args = Some mid \<and> get_demographic_model sp mid = Inr m \<and>
    qc_model m = None \<and>
    length (args_samples args) \<le> num_sampling_populations m \<and>
    get_contig (genetic_map_data pkg) sp (args_chromosome args) (args_genetic_map args)
      (args_length_multiplier args) = Inr contig \<and>
    get_engine pkg (args_engine args) = Inr engine"
  then have sel: "select_model pkg sp args = Inr (m, False)"
    using select_model_named[of args mid sp m pkg] by simp
  from h have cnt: "length (args_samples args) \<le> num_sampling_populations m"
    and ctg: "get_contig (genetic_map_data pkg) sp (args_chromosome args) (args_genetic_map args)
      (args_length_multiplier args) = Inr contig"
    and eng: "get_engine pkg (args_engine args) = Inr engine"
    by simp_all
  from run_simulation_reaches_engine[OF sel cnt ctg eng]
  obtain samples summary request where
    r: "request = \<lparr>request_args = args, request_model = m,
                    request_contig = contig, request_samples = samples\<rparr>" and
    run: "run_simulation pkg sp args =
             ([RunningInfo (model_id m) (species_id sp) (length samples) (engine_id engine),
               SummaryWarning summary]
              @ (if False then [] else [QCWarning (model_id m)])
              @ [EngineSimulate request (simulate engine request)]
              @ (case simulate engine request of
                   Inl e \<Rightarrow> []
                 | Inr ts \<Rightarrow>
                     [SummariseUsage]
                     @ (case ts of None \<Rightarrow> [] | Some t \<Rightarrow> [WriteOutput t (args_output args)])
                     @ (if False then [CitationRequest
                                      (get_citations (stdpopsim_citation pkg) engine m contig sp)]
                        else [])
                     @ (case args_bibtex_file args of
                          None \<Rightarrow> []
                        | Some f \<Rightarrow>
                            [WriteBibtex f
                               (get_citations (stdpopsim_citation pkg) engine m contig sp)])),
              (case simulate engine request of Inl e \<Rightarrow> Raised e | Inr ts \<Rightarrow> Returned))"
    by blast
  let ?before = "[RunningInfo (model_id m) (species_id sp) (length samples) (engine_id engine),
               SummaryWarning summary]"
  let ?after = "(case simulate engine request of
                   Inl e \<Rightarrow> []
                 | Inr ts \<Rightarrow>
                     [SummariseUsage]
                     @ (case ts of None \<Rightarrow> [] | Some t \<Rightarrow> [WriteOutput t (args_output args)])
                     @ (case args_bibtex_file args of
                          None \<Rightarrow> []
                        | Some f \<Rightarrow>
                            [WriteBibtex f
                               (get_citations (stdpopsim_citation pkg) engine m contig sp)]))"
  have 1: "fst (run_simulation pkg sp args)
           = ?before @ [QCWarning (model_id m), EngineSimulate request (simulate engine request)]
             @ ?after"
    unfolding run by (simp split: sum.splits)
  have 2: "request_model request = m" by (simp add: r)
  have 3: "snd (run_simulation pkg sp args)
           = (case simulate engine request of Inl e \<Rightarrow> Raised e | Inr ts \<Rightarrow> Returned)"
    unfolding run by simp
  have 4: "\<forall>cs. CitationRequest cs \<notin> set (fst (run_simulation pkg sp args))"
    using no_citation_request[OF sel] by simp
  from 1 2 3 4
  show "\<exists>before request after.
         fst (run_simulation pkg sp args)
           = before @ [QCWarning (model_id m), EngineSimulate request (simulate engine request)]
             @ after \<and>
         request_model request = m \<and>
         snd (run_simulation pkg sp args)
           = (case simulate engine request of Inl e \<Rightarrow> Raised e | Inr ts \<Rightarrow> Returned) \<and>
         (\<forall>cs. CitationRequest cs \<notin> set (fst (run_simulation pkg sp args)))"
    by blast
next
  fix cs assume "CitationRequest cs \<in> set (fst (run_simulation pkg sp args))"
  then show "\<exists>m'. select_model pkg sp args = Inr (m', True)"
    by (rule citation_request_qc_complete)
next
  fix m' qc assume "select_model pkg sp args = Inr (m', qc)"
  then show "qc = (args_demographic_model args = None \<or> qc_model m' \<noteq> None)"
    by (rule select_model_qc_complete)
qed

lemma example_default_model:
  "\<exists>m. select_model example_package BosTau (example_args\<lparr>args_demographic_model := None\<rparr>)
          = Inr (m, True) \<and>
       model_id m = ''PiecewiseConstant'' \<and>
       num_sampling_populations m = 1 \<and>
       get_samples m [10] = Inr (replicate 10 \<lparr>population = 0, time = 0\<rparr>)"
proof -
  let ?args = "example_args\<lparr>args_demographic_model := None\<rparr>"
  let ?m = "(PiecewiseConstantSize (pcs_attributes example_package) (population_size BosTau))
              \<lparr>generation_time := species_generation_time BosTau,
               citations := pcs_citations (pcs_attributes example_package)
                            @ population_size_citations BosTau
                            @ generation_time_citations BosTau\<rparr>"
  have sel: "select_model example_package BosTau ?args = Inr (?m, True)"
    by (rule select_model_default) simp
  have pops: "populations ?m = [Population_init ''pop_0'' ''Single population'']"
    by (simp add: PiecewiseConstantSize_def example_package_def)
  have n: "num_sampling_populations ?m = 1"
    unfolding num_sampling_populations_def pops by (simp add: Population_init_def)
  have g: "get_samples ?m [10] = Inr (replicate 10 \<lparr>population = 0, time = 0\<rparr>)"
    unfolding get_samples_def n pops by (simp add: Population_init_def)
  have i: "model_id ?m = ''PiecewiseConstant''"
    by (simp add: PiecewiseConstantSize_def example_package_def)
  from sel i n g show ?thesis by blast
qed

lemma example_default_run:
  "\<exists>m summary request cs.
     select_model example_package BosTau (example_args\<lparr>args_demographic_model := None\<rparr>)
       = Inr (m, True) \<and>
     request_model request = m \<and>
     fst (run_simulation example_package BosTau (example_args\<lparr>args_demographic_model := None\<rparr>)) =
       [RunningInfo ''PiecewiseConstant'' ''BosTau'' 10 ''msprime'',
        SummaryWarning summary,
        EngineSimulate request (Inr (Some 10)),
        SummariseUsage,
        WriteOutput 10 None,
        CitationRequest cs]"
proof -
  let ?args = "example_args\<lparr>args_demographic_model := None\<rparr>"
  let ?samples = "replicate 10 \<lparr>population = 0, time = 0\<rparr>"
  from example_default_model obtain m where
    sel: "select_model example_package BosTau ?args = Inr (m, True)" and
    i: "model_id m = ''PiecewiseConstant''" and
    n: "num_sampling_populations m = 1" and
    g: "get_samples m [10] = Inr ?samples"
    by blast
  let ?request = "\<lparr>request_args = ?args, request_model = m,
                   request_contig = chr1_contig, request_samples = ?samples\<rparr>"
  have smp: "args_samples ?args = [10]" and bib: "args_bibtex_file ?args = None"
    and out: "args_output ?args = None" and seed: "args_seed ?args = None"
    by (simp_all add: example_args_def)
  have ctg: "get_contig (genetic_map_data example_package) BosTau (args_chromosome ?args)
               (args_genetic_map ?args) (args_length_multiplier ?args) = Inr chr1_contig"
    by (simp add: example_args_def BosTau_chr1_contig)
  have eng: "get_engine example_package (args_engine ?args) = Inr example_engine"
    by (simp add: example_args_def example_package_def)
  have "list_all (\<lambda>s. population s < num_sampling_populations m) ?samples"
    by (simp add: n list_all_iff)
  from write_simulation_summary_ok[OF this] obtain summary where
    w: "write_simulation_summary example_engine m chr1_contig ?samples None = Inr summary"
    by blast
  have ids: "species_id BosTau = ''BosTau''" "engine_id example_engine = ''msprime''"
    by (simp_all add: BosTau_def add_demographic_model_def species_def example_engine_def)
  have sim: "simulate example_engine ?request = Inr (Some 10)"
    by (simp add: example_engine_def example_args_def)
  have "fst (run_simulation example_package BosTau ?args) =
       [RunningInfo ''PiecewiseConstant'' ''BosTau'' 10 ''msprime'',
        SummaryWarning summary,
        EngineSimulate ?request (Inr (Some 10)),
        SummariseUsage,
        WriteOutput 10 None,
        CitationRequest (get_citations (stdpopsim_citation example_package) example_engine m
                           chr1_contig BosTau)]"
    unfolding run_simulation_def sel smp ctg eng seed bib out
    by (simp add: n g w i ids sim)
  moreover have "request_model ?request = m" by simp
  ultimately show ?thesis using sel by blast
qed

theorem qc_warning_is_advisory_witness:
  "args_demographic_model example_args = Some ''IonaInferredDemography'' \<and>
   get_demographic_model BosTau ''IonaInferredDemography'' = Inr inferred_1_M_13 \<and>
   qc_model inferred_1_M_13 = None \<and>
   length (args_samples example_args) \<le> num_sampling_populations inferred_1_M_13 \<and>
   get_contig (genetic_map_data example_package) BosTau (args_chromosome example_args)
     (args_genetic_map example_args) (args_length_multiplier example_args) = Inr chr1_contig \<and>
   get_engine example_package (args_engine example_args) = Inr example_engine \<and>
   (\<exists>before request after.
      fst (run_simulation example_package BosTau example_args)
        = before @ [QCWarning (model_id inferred_1_M_13),
                    EngineSimulate request (simulate example_engine request)] @ after \<and>
      request_model request = inferred_1_M_13 \<and>
      snd (run_simulation example_package BosTau example_args)
        = (case simulate example_engine request of Inl e \<Rightarrow> Raised e | Inr ts \<Rightarrow> Returned) \<and>
      (\<forall>cs. CitationRequest cs \<notin> set (fst (run_simulation example_package BosTau example_args)))) \<and>
   (\<exists>cs. CitationRequest cs
      \<in> set (fst (run_simulation example_package BosTau
                     (example_args\<lparr>args_demographic_model := None\<rparr>)))) \<and>
   (\<exists>m'. select_model example_package BosTau (example_args\<lparr>args_demographic_model := None\<rparr>)
            = Inr (m', True)) \<and>
   select_model example_package BosTau example_args = Inr (inferred_1_M_13, False) \<and>
   False = (args_demographic_model example_args = None \<or> qc_model inferred_1_M_13 \<noteq> None)"
proof -
  have h: "args_demographic_model example_args = Some ''IonaInferredDemography'' \<and>
     get_demographic_model BosTau ''IonaInferredDemography'' = Inr inferred_1_M_13 \<and>
     qc_model inferred_1_M_13 = None \<and>
     length (args_samples example_args) \<le> num_sampling_populations inferred_1_M_13 \<and>
     get_contig (genetic_map_data example_package) BosTau (args_chromosome example_args)
       (args_genetic_map example_args) (args_length_multiplier example_args) = Inr chr1_contig \<and>
     get_engine example_package (args_engine example_args) = Inr example_engine"
    by (simp add: example_args_def BosTau_get_demographic_model inferred_1_M_13_qc_model
        inferred_1_M_13_num_sampling_populations BosTau_chr1_contig example_package_def)
  note named = qc_warning_is_advisory[of example_args "''IonaInferredDemography''" BosTau
      inferred_1_M_13 example_package chr1_contig example_engine]
  note default = qc_warning_is_advisory[of "example_args\<lparr>args_demographic_model := None\<rparr>"
      "''IonaInferredDemography''" BosTau inferred_1_M_13 example_package chr1_contig
      example_engine]
  from example_default_run obtain m summary request cs where
    "fst (run_simulation example_package BosTau (example_args\<lparr>args_demographic_model := None\<rparr>)) =
       [RunningInfo ''PiecewiseConstant'' ''BosTau'' 10 ''msprime'',
        SummaryWarning summary, EngineSimulate request (Inr (Some 10)),
        SummariseUsage, WriteOutput 10 None, CitationRequest cs]"
    by blast
  then have mem: "CitationRequest cs
      \<in> set (fst (run_simulation example_package BosTau
                     (example_args\<lparr>args_demographic_model := None\<rparr>)))"
    by simp
  then have 2: "\<exists>cs. CitationRequest cs
      \<in> set (fst (run_simulation example_package BosTau
                     (example_args\<lparr>args_demographic_model := None\<rparr>)))" ..
  from default[THEN conjunct2, THEN conjunct1, THEN spec, THEN mp, OF mem]
  have 3: "\<exists>m'. select_model example_package BosTau
                   (example_args\<lparr>args_demographic_model := None\<rparr>) = Inr (m', True)" .
  have sel: "select_model example_package BosTau example_args = Inr (inferred_1_M_13, False)"
    by (rule BosTau_select_model) (simp add: example_args_def)
  from named[THEN conjunct2, THEN conjunct2, THEN spec, THEN spec, THEN mp, OF sel]
  have 4: "False = (args_demographic_model example_args = None \<or> qc_model inferred_1_M_13 \<noteq> None)" .
  from named[THEN conjunct1, THEN mp, OF h] h 2 3 sel 4
  show ?thesis by simp
qed

text \<open>
  Claim C7. In every run in which no demographic model is named, the model used is the
  piecewise-constant convenience model built from the species' population size, with its
  generation time set to the species' and the species' population-size and
  generation-time citations appended to its citations: a single population, one initial
  configuration of that size with growth rate 0, no events. It is the model of every
  request the run sends to the engine.
\<close>

theorem default_model_is_piecewise_constant:
  assumes "args_demographic_model args = None"
  shows "\<exists>m. select_model pkg sp args = Inr (m, True) \<and>
     m = (PiecewiseConstantSize (pcs_attributes pkg) (population_size sp))
           \<lparr>generation_time := species_generation_time sp,
            citations := citations (PiecewiseConstantSize (pcs_attributes pkg) (population_size sp))
                         @ population_size_citations sp @ generation_time_citations sp\<rparr> \<and>
     length (populations m) = 1 \<and>
     map (\<lambda>c. (initial_size c, growth_rate c)) (population_configurations m)
       = [(population_size sp, 0)] \<and>
     demographic_events m = [] \<and>
     generation_time m = species_generation_time sp \<and>
     (\<forall>request result.
        EngineSimulate request result \<in> set (fst (run_simulation pkg sp args)) \<longrightarrow>
        request_model request = m)"
proof -
  let ?m = "(PiecewiseConstantSize (pcs_attributes pkg) (population_size sp))
              \<lparr>generation_time := species_generation_time sp,
               citations := pcs_citations (pcs_attributes pkg) @ population_size_citations sp
                            @ generation_time_citations sp\<rparr>"
  from assms have sel: "select_model pkg sp args = Inr (?m, True)"
    by (rule select_model_default)
  have c: "citations (PiecewiseConstantSize (pcs_attributes pkg) (population_size sp))
             = pcs_citations (pcs_attributes pkg)"
    by (simp add: PiecewiseConstantSize_def)
  have p: "length (populations ?m) = 1"
    and cfg: "map (\<lambda>c. (initial_size c, growth_rate c)) (population_configurations ?m)
       = [(population_size sp, 0)]"
    and ev: "demographic_events ?m = []"
    and gt: "generation_time ?m = species_generation_time sp"
    by (simp_all add: PiecewiseConstantSize_def)
  have used: "\<forall>request result.
        EngineSimulate request result \<in> set (fst (run_simulation pkg sp args)) \<longrightarrow>
        request_model request = ?m"
  proof (intro allI impI)
    fix request result
    assume "EngineSimulate request result \<in> set (fst (run_simulation pkg sp args))"
    from engine_request[OF this] sel show "request_model request = ?m" by auto
  qed
  from sel c p cfg ev gt used show ?thesis by simp
qed

theorem default_model_is_piecewise_constant_witness:
  "args_demographic_model (example_args\<lparr>args_demographic_model := None\<rparr>) = None \<and>
   (\<exists>m request.
      select_model example_package BosTau (example_args\<lparr>args_demographic_model := None\<rparr>)
        = Inr (m, True) \<and>
      length (populations m) = 1 \<and>
      map (\<lambda>c. (initial_size c, growth_rate c)) (population_configurations m) = [(62000, 0)] \<and>
      demographic_events m = [] \<and>
      generation_time m = 5 \<and>
      citations m = [pop_size_citation, gen_time_citation] \<and>
      EngineSimulate request (Inr (Some 10))
        \<in> set (fst (run_simulation example_package BosTau
                       (example_args\<lparr>args_demographic_model := None\<rparr>))) \<and>
      request_model request = m)"
proof -
  let ?args = "example_args\<lparr>args_demographic_model := None\<rparr>"
  have h: "args_demographic_model ?args = None" by simp
  from default_model_is_piecewise_constant[OF h, of example_package BosTau]
  obtain m where
    sel: "select_model example_package BosTau ?args = Inr (m, True)" and
    m: "m = (PiecewiseConstantSize (pcs_attributes example_package) (population_size BosTau))
           \<lparr>generation_time := species_generation_time BosTau,
            citations := citations (PiecewiseConstantSize (pcs_attributes example_package)
                                      (population_size BosTau))
                         @ population_size_citations BosTau @ generation_time_citations BosTau\<rparr>" and
    p: "length (populations m) = 1" and
    cfg: "map (\<lambda>c. (initial_size c, growth_rate c)) (population_configurations m)
            = [(population_size BosTau, 0)]" and
    ev: "demographic_events m = []" and
    gt: "generation_time m = species_generation_time BosTau" and
    used: "\<forall>request result.
        EngineSimulate request result \<in> set (fst (run_simulation example_package BosTau ?args)) \<longrightarrow>
        request_model request = m"
    by (elim exE conjE) (rule that; assumption)
  have sp: "population_size BosTau = 62000" "species_generation_time BosTau = 5"
    "population_size_citations BosTau = [pop_size_citation]"
    "generation_time_citations BosTau = [gen_time_citation]"
    by (simp_all add: BosTau_def add_demographic_model_def species_def)
  have cit: "citations m = [pop_size_citation, gen_time_citation]"
    unfolding m by (simp add: sp PiecewiseConstantSize_def example_package_def)
  from example_default_run obtain m' summary request cs where
    "fst (run_simulation example_package BosTau ?args) =
       [RunningInfo ''PiecewiseConstant'' ''BosTau'' 10 ''msprime'',
        SummaryWarning summary, EngineSimulate request (Inr (Some 10)),
        SummariseUsage, WriteOutput 10 None, CitationRequest cs]"
    by blast
  then have mem: "EngineSimulate request (Inr (Some 10))
      \<in> set (fst (run_simulation example_package BosTau ?args))"
    by simp
  from used[THEN spec, THEN spec, THEN mp, OF mem] have rm: "request_model request = m" .
  have "\<exists>m request.
      select_model example_package BosTau ?args = Inr (m, True) \<and>
      length (populations m) = 1 \<and>
      map (\<lambda>c. (initial_size c, growth_rate c)) (population_configurations m) = [(62000, 0)] \<and>
      demographic_events m = [] \<and>
      generation_time m = 5 \<and>
      citations m = [pop_size_citation, gen_time_citation] \<and>
      EngineSimulate request (Inr (Some 10))
        \<in> set (fst (run_simulation example_package BosTau ?args)) \<and>
      request_model request = m"
  proof (intro exI)
    from sel p cfg ev gt cit mem rm show
      "select_model example_package BosTau ?args = Inr (m, True) \<and>
       length (populations m) = 1 \<and>
       map (\<lambda>c. (initial_size c, growth_rate c)) (population_configurations m) = [(62000, 0)] \<and>
       demographic_events m = [] \<and>
       generation_time m = 5 \<and>
       citations m = [pop_size_citation, gen_time_citation] \<and>
       EngineSimulate request (Inr (Some 10))
         \<in> set (fst (run_simulation example_package BosTau ?args)) \<and>
       request_model request = m"
      by (simp add: sp)
  qed
  with h show ?thesis by (rule conjI)
qed

subsection \<open>Contig resolution\<close>

lemma get_contig_uniform:
  "get_chromosome (genome sp) cid = Inr c \<Longrightarrow>
   get_contig map_data sp cid None m =
     Inr \<lparr>recombination_map =
            \<lparr>get_length = real_of_int (chromosome_length c) * m,
             mean_recombination_rate = recombination_rate c\<rparr>,
          contig_mutation_rate = mutation_rate c,
          contig_genetic_map = None\<rparr>"
  by (simp add: get_contig_def)

lemma get_contig_length:
  "get_chromosome (genome sp) cid = Inr c \<Longrightarrow>
   get_contig map_data sp cid gid m = Inr contig \<Longrightarrow>
   get_length (recombination_map contig) = real_of_int (chromosome_length c) * m \<and>
   contig_mutation_rate contig = mutation_rate c \<and>
   (gid = None \<longrightarrow> mean_recombination_rate (recombination_map contig) = recombination_rate c)"
  by (auto simp: get_contig_def split: sum.splits option.splits)

lemma get_contig_rates:
  "map_sum id (\<lambda>k. (contig_mutation_rate k, mean_recombination_rate (recombination_map k)))
     (get_contig map_data sp cid gid m)
   = map_sum id (\<lambda>k. (contig_mutation_rate k, mean_recombination_rate (recombination_map k)))
       (get_contig map_data sp cid gid 1)"
  by (simp add: get_contig_def split: sum.splits option.splits)

text \<open>
  Claim C9. For every species, chromosome and length multiplier among 0.5, 1 and 2 (for
  which the product of the front end's floating point multiplier and an integer length is
  exact): contig resolution without a genetic map succeeds, every contig it produces, with
  or without a genetic map, has length exactly the chromosome's length times the
  multiplier and the chromosome's mutation rate, and without a genetic map the
  chromosome's recombination rate; the per-base rates are those obtained with multiplier
  1; and the contig of a run is the one resolved from the run's chromosome, genetic map
  and length multiplier arguments.
\<close>

theorem contig_length_multiplier:
  "(get_chromosome (genome sp) cid = Inr c \<and> m \<in> {1 / 2, 1, 2} \<longrightarrow>
      (\<exists>contig. get_contig map_data sp cid None m = Inr contig) \<and>
      (\<forall>contig.
         get_contig map_data sp cid gid m = Inr contig \<longrightarrow>
         get_length (recombination_map contig) = real_of_int (chromosome_length c) * m \<and>
         contig_mutation_rate contig = mutation_rate c \<and>
         (gid = None \<longrightarrow>
            mean_recombination_rate (recombination_map contig) = recombination_rate c))) \<and>
   (m \<in> {1 / 2, 1, 2} \<longrightarrow>
      map_sum id (\<lambda>k. (contig_mutation_rate k, mean_recombination_rate (recombination_map k)))
        (get_contig map_data sp cid gid m)
      = map_sum id (\<lambda>k. (contig_mutation_rate k, mean_recombination_rate (recombination_map k)))
          (get_contig map_data sp cid gid 1)) \<and>
   (\<forall>request result.
      EngineSimulate request result \<in> set (fst (run_simulation pkg sp args)) \<longrightarrow>
      get_contig (genetic_map_data pkg) sp (args_chromosome args) (args_genetic_map args)
        (args_length_multiplier args) = Inr (request_contig request))"
proof (intro conjI impI allI)
  assume "get_chromosome (genome sp) cid = Inr c \<and> m \<in> {1 / 2, 1, 2}"
  then have "get_chromosome (genome sp) cid = Inr c" ..
  from get_contig_uniform[OF this, of map_data m]
  show "\<exists>contig. get_contig map_data sp cid None m = Inr contig"
    by simp
next
  fix contig
  assume "get_chromosome (genome sp) cid = Inr c \<and> m \<in> {1 / 2, 1, 2}"
    and g: "get_contig map_data sp cid gid m = Inr contig"
  then have c: "get_chromosome (genome sp) cid = Inr c" by simp
  note r = get_contig_length[OF c g]
  from r show "get_length (recombination_map contig) = real_of_int (chromosome_length c) * m"
    by simp
  from r show "contig_mutation_rate contig = mutation_rate c"
    by simp
  assume "gid = None"
  with r show "mean_recombination_rate (recombination_map contig) = recombination_rate c"
    by simp
next
  show "map_sum id (\<lambda>k. (contig_mutation_rate k, mean_recombination_rate (recombination_map k)))
        (get_contig map_data sp cid gid m)
      = map_sum id (\<lambda>k. (contig_mutation_rate k, mean_recombination_rate (recombination_map k)))
          (get_contig map_data sp cid gid 1)"
    by (rule get_contig_rates)
next
  fix request result
  assume "EngineSimulate request result \<in> set (fst (run_simulation pkg sp args))"
  from engine_request[OF this]
  show "get_contig (genetic_map_data pkg) sp (args_chromosome args) (args_genetic_map args)
        (args_length_multiplier args) = Inr (request_contig request)"
    by simp
qed

lemma BosTau_get_chr1:
  "genome sp = genome BosTau \<Longrightarrow>
   get_chromosome (genome sp) (Some ''chr1'') =
     Inr \<lparr>chromosome_id = ''chr1'', chromosome_length = 158534110,
          mutation_rate = 1 / 10 ^ 8, recombination_rate = 1 / 10 ^ 8\<rparr>"
proof -
  assume g: "genome sp = genome BosTau"
  from BosTau_first_chromosome obtain rest where
    "chromosomes (genome BosTau) =
       \<lparr>chromosome_id = ''chr1'', chromosome_length = 158534110,
        mutation_rate = 1 / 10 ^ 8, recombination_rate = 1 / 10 ^ 8\<rparr> # rest" ..
  then show ?thesis
    by (simp add: get_chromosome_def g)
qed

lemma BosTau_with_map_contig:
  "get_contig example_map_data BosTau_with_map (Some ''chr1'') (Some ''ExampleMap'') 2 =
     Inr \<lparr>recombination_map = \<lparr>get_length = 317068220, mean_recombination_rate = 2 / 10 ^ 8\<rparr>,
          contig_mutation_rate = 1 / 10 ^ 8,
          contig_genetic_map = Some example_genetic_map\<rparr>"
proof -
  have g: "genome BosTau_with_map = genome BosTau"
    by (simp add: BosTau_with_map_def)
  have m: "get_genetic_map BosTau_with_map ''ExampleMap'' = Inr example_genetic_map"
    by (simp add: get_genetic_map_def BosTau_with_map_def example_genetic_map_def)
  show ?thesis
    unfolding get_contig_def BosTau_get_chr1[OF g]
    by (simp add: example_map_data_def m)
qed

theorem contig_length_multiplier_witness:
  "get_chromosome (genome BosTau) (Some ''chr1'') =
     Inr \<lparr>chromosome_id = ''chr1'', chromosome_length = 158534110,
          mutation_rate = 1 / 10 ^ 8, recombination_rate = 1 / 10 ^ 8\<rparr> \<and>
   (1 / 2 :: real) \<in> {1 / 2, 1, 2} \<and>
   (\<exists>contig.
      get_contig (genetic_map_data example_package) BosTau (Some ''chr1'') None (1 / 2)
        = Inr contig \<and>
      get_length (recombination_map contig) = 79267055 \<and>
      mean_recombination_rate (recombination_map contig) = 1 / 10 ^ 8 \<and>
      contig_mutation_rate contig = 1 / 10 ^ 8) \<and>
   (\<exists>contig.
      get_contig example_map_data BosTau_with_map (Some ''chr1'') (Some ''ExampleMap'') 2
        = Inr contig \<and>
      get_length (recombination_map contig) = 317068220 \<and>
      contig_mutation_rate contig = 1 / 10 ^ 8) \<and>
   (\<exists>request.
      EngineSimulate request (Inr (Some 10))
        \<in> set (fst (run_simulation example_package BosTau
                       (example_args\<lparr>args_dry_run := False\<rparr>))) \<and>
      request_contig request = chr1_contig)"
proof -
  let ?c = "\<lparr>chromosome_id = ''chr1'', chromosome_length = 158534110,
             mutation_rate = 1 / 10 ^ 8, recombination_rate = 1 / 10 ^ 8 :: real\<rparr>"
  let ?args = "example_args\<lparr>args_dry_run := False\<rparr>"
  have h: "get_chromosome (genome BosTau) (Some ''chr1'') = Inr ?c \<and> (1 / 2 :: real) \<in> {1 / 2, 1, 2}"
    by (simp add: BosTau_get_chr1)
  have h2: "get_chromosome (genome BosTau_with_map) (Some ''chr1'') = Inr ?c \<and> (2 :: real) \<in> {1 / 2, 1, 2}"
    by (simp add: BosTau_get_chr1 BosTau_with_map_def)
  note inst = contig_length_multiplier[of BosTau "Some ''chr1''" ?c "1 / 2"
      "genetic_map_data example_package" None example_package ?args]
  note inst2 = contig_length_multiplier[of BosTau_with_map "Some ''chr1''" ?c 2
      example_map_data "Some ''ExampleMap''" example_package ?args]
  from inst[THEN conjunct1, THEN mp, OF h] obtain contig where
    c: "get_contig (genetic_map_data example_package) BosTau (Some ''chr1'') None (1 / 2)
          = Inr contig"
    by (elim exE conjE)
  from inst[THEN conjunct1, THEN mp, OF h, THEN conjunct2, THEN spec, THEN mp, OF c] c
  have 1: "\<exists>contig.
      get_contig (genetic_map_data example_package) BosTau (Some ''chr1'') None (1 / 2)
        = Inr contig \<and>
      get_length (recombination_map contig) = 79267055 \<and>
      mean_recombination_rate (recombination_map contig) = 1 / 10 ^ 8 \<and>
      contig_mutation_rate contig = 1 / 10 ^ 8"
    by simp
  from inst2[THEN conjunct1, THEN mp, OF h2, THEN conjunct2, THEN spec, THEN mp,
      OF BosTau_with_map_contig] BosTau_with_map_contig
  have 3: "\<exists>contig.
      get_contig example_map_data BosTau_with_map (Some ''chr1'') (Some ''ExampleMap'') 2
        = Inr contig \<and>
      get_length (recombination_map contig) = 317068220 \<and>
      contig_mutation_rate contig = 1 / 10 ^ 8"
    by simp
  from example_run_simulated obtain summary request where
    "fst (run_simulation example_package BosTau ?args) =
       [RunningInfo ''IonaInferredDemography'' ''BosTau'' 10 ''msprime'',
        SummaryWarning summary, QCWarning ''IonaInferredDemography'',
        EngineSimulate request (Inr (Some 10)), SummariseUsage, WriteOutput 10 None]"
    by blast
  then have mem: "EngineSimulate request (Inr (Some 10))
      \<in> set (fst (run_simulation example_package BosTau ?args))"
    by simp
  from inst[THEN conjunct2, THEN conjunct2, THEN spec, THEN spec, THEN mp, OF mem]
  have "request_contig request = chr1_contig"
    by (simp add: example_args_def BosTau_chr1_contig)
  with mem have 2: "\<exists>request.
      EngineSimulate request (Inr (Some 10))
        \<in> set (fst (run_simulation example_package BosTau ?args)) \<and>
      request_contig request = chr1_contig"
    by (intro exI conjI)
  from h 1 3 2 show ?thesis by simp
qed

subsection \<open>The default chromosome\<close>

lemma parse_chromosome_default:
  "parse_chromosome sp None =
     Inr (if length (chromosomes (genome sp)) > 1
          then Some (chromosome_id (chromosomes (genome sp) ! 0)) else None)"
  by (cases "chromosomes (genome sp)") (simp_all add: parse_chromosome_def Let_def)

text \<open>
  Claim C5, as amended. When no chromosome id is supplied on the command line and the
  genome is not empty, the chromosome is the species' first chromosome: for a genome of
  more than one chromosome the parser's default is the id of the first chromosome, and
  for a genome of exactly one chromosome the parser leaves the id \<open>None\<close> and contig
  resolution takes the only chromosome. A chromosome id is not required in either case.
\<close>

theorem chromosome_defaults_to_first:
  assumes "chromosomes (genome sp) \<noteq> []"
  shows "\<exists>cid.
           parse_chromosome sp None = Inr cid \<and>
           cid = (if length (chromosomes (genome sp)) > 1
                  then Some (chromosome_id (hd (chromosomes (genome sp)))) else None) \<and>
           get_chromosome (genome sp) cid = Inr (hd (chromosomes (genome sp)))"
proof (cases "chromosomes (genome sp)")
  case Nil
  with assms show ?thesis by simp
next
  case (Cons c cs)
  show ?thesis
  proof (cases cs)
    case Nil
    with Cons show ?thesis
      by (simp add: parse_chromosome_default get_chromosome_def)
  next
    case (Cons c' cs')
    with \<open>chromosomes (genome sp) = c # cs\<close> show ?thesis
      by (simp add: parse_chromosome_default get_chromosome_def)
  qed
qed

theorem chromosome_defaults_to_first_witness:
  "chromosomes (genome BosTau) \<noteq> [] \<and>
   (\<exists>cid c. parse_chromosome BosTau None = Inr cid \<and> cid = Some ''chr1'' \<and>
      get_chromosome (genome BosTau) cid = Inr c \<and> c = hd (chromosomes (genome BosTau)) \<and>
      chromosome_id c = ''chr1'')"
proof -
  from BosTau_first_chromosome obtain rest where
    ch: "chromosomes (genome BosTau) =
       \<lparr>chromosome_id = ''chr1'', chromosome_length = 158534110,
        mutation_rate = 1 / 10 ^ 8, recombination_rate = 1 / 10 ^ 8\<rparr> # rest" ..
  then have ne: "chromosomes (genome BosTau) \<noteq> []" by simp
  have len: "length (chromosomes (genome BosTau)) > 1"
    by (simp add: BosTau_chromosomes)
  from chromosome_defaults_to_first[OF ne] obtain cid where
    p: "parse_chromosome BosTau None = Inr cid" and
    c: "cid = (if length (chromosomes (genome BosTau)) > 1
               then Some (chromosome_id (hd (chromosomes (genome BosTau)))) else None)" and
    g: "get_chromosome (genome BosTau) cid = Inr (hd (chromosomes (genome BosTau)))"
    by (elim exE conjE)
  from c len have c': "cid = Some ''chr1''" by (simp add: ch)
  have i: "chromosome_id (hd (chromosomes (genome BosTau))) = ''chr1''" by (simp add: ch)
  from p c' g i have "\<exists>cid c. parse_chromosome BosTau None = Inr cid \<and> cid = Some ''chr1'' \<and>
      get_chromosome (genome BosTau) cid = Inr c \<and> c = hd (chromosomes (genome BosTau)) \<and>
      chromosome_id c = ''chr1''"
    by simp
  with ne show ?thesis by (rule conjI)
qed

text \<open>
  Bos Taurus has 30 chromosomes, and a command line without \<^verbatim>\<open>-c\<close> is parsed to the
  chromosome id \<^verbatim>\<open>chr1\<close>, which contig resolution finds; the run with that id returns.
\<close>

theorem BosTau_chromosome_not_required:
  "length (chromosomes (genome BosTau)) = 30 \<and>
   parse_chromosome BosTau None = Inr (Some ''chr1'') \<and>
   map_sum id chromosome_id (get_chromosome (genome BosTau) (Some ''chr1'')) = Inr ''chr1'' \<and>
   args_chromosome example_args = Some ''chr1'' \<and>
   snd (run_simulation example_package BosTau example_args) = Returned"
proof -
  from BosTau_first_chromosome obtain rest where
    ch: "chromosomes (genome BosTau) =
       \<lparr>chromosome_id = ''chr1'', chromosome_length = 158534110,
        mutation_rate = 1 / 10 ^ 8, recombination_rate = 1 / 10 ^ 8\<rparr> # rest" ..
  have len: "length (chromosomes (genome BosTau)) = 30"
    by (rule BosTau_chromosomes)
  have p: "parse_chromosome BosTau None = Inr (Some ''chr1'')"
    unfolding parse_chromosome_default len by (simp add: ch)
  have g: "map_sum id chromosome_id (get_chromosome (genome BosTau) (Some ''chr1'')) = Inr ''chr1''"
    by (simp add: BosTau_get_chr1)
  have a: "args_chromosome example_args = Some ''chr1''"
    by (simp add: example_args_def)
  have e: "example_args\<lparr>args_dry_run := False\<rparr> = example_args"
    by (simp add: example_args_def)
  from example_run[of False] have r: "snd (run_simulation example_package BosTau example_args) = Returned"
    unfolding e by (elim exE conjE) simp
  from len p g a r show ?thesis by simp
qed

end
